theory Spec2Isabelle
  imports
    Complex_Main
    "HOL-Library.Multiset"
    "HOL-Library.List_Lexorder"
    "HOL-Library.Char_ord"
    "HOL-Library.Product_Lexorder"
begin

section \<open>Mortality figures of the Comunitat Valenciana: the data computations\<close>

text \<open>
  This theory embeds the data side of \<^verbatim>\<open>generar_figuras.py\<close>: the loader
  \<^verbatim>\<open>cargar_datos\<close>, the filters, group means, ratios, orderings, pivots and percent
  changes of the thirteen figure functions, the exceptions those computations raise, and
  the pipeline \<^verbatim>\<open>generar_todas_las_figuras\<close>.

  Conventions of the embedding.
  \<^item> A cell of the two numeric columns is a \<^typ>\<open>real\<close>: the rounding of binary
    floating point is not modelled, sums and quotients of finite values are exact.
    What a float computation can produce besides a finite value (the two infinities
    and NaN) is kept, in the type \<open>float64\<close> below, because the program divides
    without checking the denominator. Negative zero is not distinguished from zero.
  \<^item> pandas, numpy, scipy and matplotlib are not part of the repository. What the
    program needs of them is a parameter, the record \<open>biblioteca\<close>, whose documented
    contract is the predicate \<open>biblioteca_ok\<close>. The order in which a sort leaves equal
    keys is \<^emph>\<open>not\<close> part of that contract: the program asks for the default sort.
  \<^item> An exception is a value of type \<open>error\<close>; a function that can raise returns
    \<open>error + 'a\<close>, with \<open>Inl\<close> the exception.
\<close>

subsection \<open>Float results\<close>

datatype float64 = Fin real | PosInf | NegInf | NaN

fun fsub :: "float64 \<Rightarrow> float64 \<Rightarrow> float64" where
  "fsub NaN b = NaN"
| "fsub a NaN = NaN"
| "fsub (Fin x) (Fin y) = Fin (x - y)"
| "fsub (Fin x) PosInf = NegInf"
| "fsub (Fin x) NegInf = PosInf"
| "fsub PosInf PosInf = NaN"
| "fsub PosInf b = PosInf"
| "fsub NegInf NegInf = NaN"
| "fsub NegInf b = NegInf"

fun fdiv :: "float64 \<Rightarrow> float64 \<Rightarrow> float64" where
  "fdiv NaN b = NaN"
| "fdiv a NaN = NaN"
| "fdiv (Fin x) (Fin y) =
     (if y = 0 then (if x = 0 then NaN else if 0 < x then PosInf else NegInf)
      else Fin (x / y))"
| "fdiv (Fin x) b = Fin 0"
| "fdiv PosInf (Fin y) = (if 0 \<le> y then PosInf else NegInf)"
| "fdiv NegInf (Fin y) = (if 0 \<le> y then NegInf else PosInf)"
| "fdiv a b = NaN"

fun fmul :: "float64 \<Rightarrow> float64 \<Rightarrow> float64" where
  "fmul NaN b = NaN"
| "fmul a NaN = NaN"
| "fmul (Fin x) (Fin y) = Fin (x * y)"
| "fmul (Fin x) PosInf = (if x = 0 then NaN else if 0 < x then PosInf else NegInf)"
| "fmul (Fin x) NegInf = (if x = 0 then NaN else if 0 < x then NegInf else PosInf)"
| "fmul PosInf (Fin y) = (if y = 0 then NaN else if 0 < y then PosInf else NegInf)"
| "fmul NegInf (Fin y) = (if y = 0 then NaN else if 0 < y then NegInf else PosInf)"
| "fmul PosInf PosInf = PosInf"
| "fmul NegInf NegInf = PosInf"
| "fmul a b = NegInf"

text \<open>The order numpy sorts floats by: NaN after everything else.\<close>

fun np_le :: "float64 \<Rightarrow> float64 \<Rightarrow> bool" where
  "np_le a NaN = True"
| "np_le NaN b = False"
| "np_le NegInf b = True"
| "np_le a NegInf = False"
| "np_le a PosInf = True"
| "np_le PosInf b = False"
| "np_le (Fin x) (Fin y) = (x \<le> y)"

text \<open>\<^verbatim>\<open>Series.mean()\<close>: the mean of an empty selection is NaN, no exception.\<close>

definition media :: "real list \<Rightarrow> float64" where
  "media xs = (if xs = [] then NaN else Fin (sum_list xs / real (length xs)))"

text \<open>
  The expression \<^verbatim>\<open>((fin - inicio) / inicio) * 100\<close> of lines 259, 655, 851-853, 919,
  942, 973 and 984: the source writes it out each time, here it has one name.
\<close>

definition cambio_porcentual :: "float64 \<Rightarrow> float64 \<Rightarrow> float64" where
  "cambio_porcentual inicio fin = fmul (fdiv (fsub fin inicio) inicio) (Fin 100)"

subsection \<open>Exceptions\<close>

text \<open>
  The exception classes the data computations meet. \<open>DataFormatError\<close> is the class the
  specification names for the loader; no statement of the source raises it, and it is
  listed so that statements about it can be written. \<open>Otra\<close> is any other class a
  library call may raise.
\<close>

datatype error =
    FileNotFoundError
  | KeyError
  | IndexError
  | ValueError
  | TypeError
  | DataFormatError
  | Otra string

definition bind_error :: "error + 'a \<Rightarrow> ('a \<Rightarrow> error + 'b) \<Rightarrow> error + 'b" where
  "bind_error m f = (case m of Inl e \<Rightarrow> Inl e | Inr x \<Rightarrow> f x)"

fun mapM_error :: "('a \<Rightarrow> error + 'b) \<Rightarrow> 'a list \<Rightarrow> error + 'b list" where
  "mapM_error f [] = Inr []"
| "mapM_error f (x # xs) =
     bind_error (f x) (\<lambda>y. bind_error (mapM_error f xs) (\<lambda>ys. Inr (y # ys)))"

text \<open>\<^verbatim>\<open>serie.values[0]\<close>: element 0 of a selection, IndexError when it is empty.\<close>

definition values0 :: "'a list \<Rightarrow> error + 'a" where
  "values0 xs = (case xs of [] \<Rightarrow> Inl IndexError | x # rest \<Rightarrow> Inr x)"

subsection \<open>The table\<close>

record fila =
  periodo :: int
  causa_mortalidad :: string
  sexo :: string
  ubicacion :: string
  provincia :: string
  nivel_geografico :: string
  tasa_mortalidad :: real
  esperanza_vida :: real

text \<open>
  A loaded DataFrame: the labels of its header, and its rows. A row gives a value for
  each of the eight columns the figures read; the value under a label that is missing
  from \<open>columnas\<close> is never read, since subscripting a missing label raises KeyError
  (\<open>requiere\<close>).
\<close>

record dataframe =
  columnas :: "string list"
  filas :: "fila list"

definition requiere :: "dataframe \<Rightarrow> string list \<Rightarrow> error + unit" where
  "requiere df cs = (if set cs \<subseteq> set (columnas df) then Inr () else Inl KeyError)"

definition columnas_esperadas :: "string list" where
  "columnas_esperadas =
     [''periodo'', ''causa_mortalidad'', ''sexo'', ''ubicacion'', ''provincia'',
      ''nivel_geografico'', ''tasa_mortalidad'', ''esperanza_vida'']"

subsection \<open>The libraries, as a parameter\<close>

text \<open>
  \<^item> \<open>read_csv ruta sep\<close>: \<^verbatim>\<open>pd.read_csv(ruta, sep=sep)\<close>, the file system included.
  \<^item> \<open>argsort xs\<close>: \<^verbatim>\<open>np.argsort(xs)\<close> with the default kind.
  \<^item> \<open>sort_indexer asc xs\<close>: the order of rows \<^verbatim>\<open>sort_values(..., ascending=asc)\<close>
    gives to a column whose keys are \<open>xs\<close>.
  \<^item> \<open>polyfit\<close>, \<open>linregress\<close>, \<open>pearsonr\<close>: the fits of figures 9 and 10 (slope and
    intercept; the correlation coefficient), or the exception they raise.
  \<^item> \<open>dibujar k rows\<close>: the matplotlib and seaborn calls of figure \<open>k\<close>, which only
    receive values computed from the table: the exception they raise, if any. They are
    one step of the model, after the data computations of the figure. In the source
    some of them come earlier (figure 1 creates the axes and plots its three lines before
    it looks up the rates of 2023 and 2021): an exception of such a call would come
    before the exception of the lookup, which the model does not show.
\<close>

record biblioteca =
  read_csv :: "string \<Rightarrow> char \<Rightarrow> error + dataframe"
  argsort :: "float64 list \<Rightarrow> nat list"
  sort_indexer :: "bool \<Rightarrow> float64 list \<Rightarrow> nat list"
  polyfit :: "real list \<Rightarrow> real list \<Rightarrow> error + real \<times> real"
  linregress :: "real list \<Rightarrow> real list \<Rightarrow> error + real \<times> real"
  pearsonr :: "real list \<Rightarrow> real list \<Rightarrow> error + real"
  dibujar :: "nat \<Rightarrow> fila list \<Rightarrow> error option"

definition es_permutacion :: "nat list \<Rightarrow> nat \<Rightarrow> bool" where
  "es_permutacion p n = (length p = n \<and> set p = {0..<n})"

definition ascendente :: "float64 list \<Rightarrow> nat list \<Rightarrow> bool" where
  "ascendente xs p = sorted_wrt (\<lambda>i j. np_le (xs ! i) (xs ! j)) p"

definition descendente :: "float64 list \<Rightarrow> nat list \<Rightarrow> bool" where
  "descendente xs p = sorted_wrt (\<lambda>i j. np_le (xs ! j) (xs ! i)) p"

text \<open>
  What the documentation of the sorting routines promises: a permutation of the
  positions that puts the keys in order (for a descending \<^verbatim>\<open>sort_values\<close>, when no key
  is NaN: pandas keeps NaN last in both directions). Nothing is promised about ties.
\<close>

definition biblioteca_ok :: "biblioteca \<Rightarrow> bool" where
  "biblioteca_ok L =
     ((\<forall>xs. es_permutacion (argsort L xs) (length xs) \<and> ascendente xs (argsort L xs)) \<and>
      (\<forall>asc xs. es_permutacion (sort_indexer L asc xs) (length xs)) \<and>
      (\<forall>xs. ascendente xs (sort_indexer L True xs)) \<and>
      (\<forall>xs. NaN \<notin> set xs \<longrightarrow> descendente xs (sort_indexer L False xs)))"

definition sort_values :: "biblioteca \<Rightarrow> ('a \<Rightarrow> float64) \<Rightarrow> bool \<Rightarrow> 'a list \<Rightarrow> 'a list" where
  "sort_values L clave asc xs = map (\<lambda>i. xs ! i) (sort_indexer L asc (map clave xs))"

definition por_periodo :: "biblioteca \<Rightarrow> fila list \<Rightarrow> fila list" where
  "por_periodo L xs = sort_values L (\<lambda>r. Fin (real_of_int (periodo r))) True xs"

subsection \<open>Filters and aggregates shared by the figures\<close>

definition seleccion :: "string \<Rightarrow> string \<Rightarrow> string \<Rightarrow> fila list \<Rightarrow> fila list" where
  "seleccion ub ca sx df =
     [r \<leftarrow> df. ubicacion r = ub \<and> causa_mortalidad r = ca \<and> sexo r = sx]"

definition departamentos :: "fila list \<Rightarrow> fila list" where
  "departamentos df =
     [r \<leftarrow> df. causa_mortalidad r = ''General'' \<and> sexo r = ''Ambos sexos'' \<and>
               nivel_geografico r = ''HOSPITAL/ZONA SALUD'']"

text \<open>\<^verbatim>\<open>datos[datos['periodo'] == anio]['tasa_mortalidad'].values[0]\<close>\<close>

definition tasa_en :: "int \<Rightarrow> fila list \<Rightarrow> error + real" where
  "tasa_en anio datos = values0 (map tasa_mortalidad [r \<leftarrow> datos. periodo r = anio])"

text \<open>\<^verbatim>\<open>datos[datos['periodo'].isin(anios)]['tasa_mortalidad'].mean()\<close>\<close>

definition media_en :: "int list \<Rightarrow> fila list \<Rightarrow> float64" where
  "media_en anios datos = media (map tasa_mortalidad [r \<leftarrow> datos. periodo r \<in> set anios])"

text \<open>
  \<^verbatim>\<open>datos.groupby(clave)['tasa_mortalidad'].mean()\<close>: one entry per key that occurs, in
  the order of the keys; every group has a row, so every mean is finite.
\<close>

definition groupby_mean :: "(fila \<Rightarrow> 'k::linorder) \<Rightarrow> fila list \<Rightarrow> ('k \<times> real) list" where
  "groupby_mean clave datos =
     map (\<lambda>k. (k, sum_list (map tasa_mortalidad [r \<leftarrow> datos. clave r = k]) /
                  real (length [r \<leftarrow> datos. clave r = k])))
         (sort (remdups (map clave datos)))"

text \<open>The male mean over the female mean of a cause (lines 312-318, 664-669, 956-962).\<close>

definition media_sexo :: "string \<Rightarrow> string \<Rightarrow> fila list \<Rightarrow> float64" where
  "media_sexo causa sx df =
     media (map tasa_mortalidad (seleccion ''Comunitat Valenciana'' causa sx df))"

definition ratio_hm :: "fila list \<Rightarrow> string \<Rightarrow> float64" where
  "ratio_hm df causa = fdiv (media_sexo causa ''Hombres'' df) (media_sexo causa ''Mujeres'' df)"

subsection \<open>Figures 1 to 7\<close>

text \<open>
  Each \<open>figN_datos\<close> is the data side of the figure function \<open>figN_...\<close>: what it
  computes from the DataFrame before and between the drawing calls, in the order of the
  source, with the exceptions of subscripting a missing column, of \<^verbatim>\<open>.values[0]\<close>, of
  \<^verbatim>\<open>drop\<close> and of \<^verbatim>\<open>max\<close> on an empty sequence.
\<close>

definition fig1_datos :: "biblioteca \<Rightarrow> dataframe \<Rightarrow> error + fila list list \<times> real \<times> real" where
  "fig1_datos L df =
     bind_error (requiere df [''ubicacion'', ''causa_mortalidad'', ''sexo'', ''periodo'',
                              ''tasa_mortalidad'']) (\<lambda>u.
     let cv_general = [r \<leftarrow> filas df. ubicacion r = ''Comunitat Valenciana'' \<and>
                                       causa_mortalidad r = ''General''];
         lineas = map (\<lambda>sx. por_periodo L [r \<leftarrow> cv_general. sexo r = sx])
                      [''Ambos sexos'', ''Hombres'', ''Mujeres''];
         cv_ambos = por_periodo L [r \<leftarrow> cv_general. sexo r = ''Ambos sexos'']
     in bind_error (tasa_en 2023 cv_ambos) (\<lambda>mort_2023.
        bind_error (tasa_en 2021 cv_ambos) (\<lambda>mort_2021.
        Inr (lineas, mort_2023, mort_2021))))"

text \<open>
  Figure 2: the group means by cause, ordered by value, without the entry General
  (\<^verbatim>\<open>drop\<close> raises KeyError when there is none), and \<^verbatim>\<open>max\<close> of what is left
  (ValueError when nothing is).
\<close>

definition fig2_medias :: "fila list \<Rightarrow> (string \<times> real) list" where
  "fig2_medias df =
     groupby_mean causa_mortalidad
       [r \<leftarrow> df. ubicacion r = ''Comunitat Valenciana'' \<and> sexo r = ''Ambos sexos'']"

definition fig2_datos :: "biblioteca \<Rightarrow> dataframe \<Rightarrow> error + (string \<times> real) list" where
  "fig2_datos L df =
     bind_error (requiere df [''ubicacion'', ''sexo'', ''causa_mortalidad'',
                              ''tasa_mortalidad'']) (\<lambda>u.
     let causas_data = sort_values L (\<lambda>kv. Fin (snd kv)) True (fig2_medias (filas df))
     in if ''General'' \<notin> set (map fst causas_data) then Inl KeyError
        else let causas_especificas = [kv \<leftarrow> causas_data. fst kv \<noteq> ''General'']
             in if causas_especificas = [] then Inl ValueError
                else Inr causas_especificas)"

definition fig3_causa :: "biblioteca \<Rightarrow> fila list \<Rightarrow> string \<Rightarrow> error + fila list \<times> float64" where
  "fig3_causa L df causa =
     (let datos = por_periodo L (seleccion ''Comunitat Valenciana'' causa ''Ambos sexos'' df)
      in bind_error (tasa_en 2010 datos) (\<lambda>inicio.
         bind_error (tasa_en 2023 datos) (\<lambda>fin.
         Inr (datos, cambio_porcentual (Fin inicio) (Fin fin)))))"

definition fig3_datos :: "biblioteca \<Rightarrow> dataframe \<Rightarrow> error + (fila list \<times> float64) list" where
  "fig3_datos L df =
     bind_error (requiere df [''ubicacion'', ''causa_mortalidad'', ''sexo'', ''periodo'',
                              ''tasa_mortalidad'']) (\<lambda>u.
     mapM_error (fig3_causa L (filas df)) [''Cancer'', ''Cardio'', ''Cerebro'', ''Suicidio''])"

text \<open>
  Figure 4: the ratios of the five causes, and \<^verbatim>\<open>orden = np.argsort(ratios)[::-1]\<close>:
  the ascending order of the positions, reversed.
\<close>

definition fig4_causas :: "string list" where
  "fig4_causas = [''General'', ''Cancer'', ''Cardio'', ''Cerebro'', ''Suicidio'']"

definition fig4_ratios :: "fila list \<Rightarrow> float64 list" where
  "fig4_ratios df = map (ratio_hm df) fig4_causas"

definition fig4_orden :: "biblioteca \<Rightarrow> fila list \<Rightarrow> nat list" where
  "fig4_orden L df = rev (argsort L (fig4_ratios df))"

definition fig4_datos :: "biblioteca \<Rightarrow> dataframe \<Rightarrow> error + string list \<times> float64 list" where
  "fig4_datos L df =
     bind_error (requiere df [''ubicacion'', ''causa_mortalidad'', ''sexo'',
                              ''tasa_mortalidad'']) (\<lambda>u.
     let orden = fig4_orden L (filas df);
         causas_ord = map (\<lambda>i. fig4_causas ! i) orden;
         ratios_ord = map (\<lambda>i. fig4_ratios (filas df) ! i) orden
     in Inr (causas_ord, ratios_ord))"

definition fig5_datos :: "dataframe \<Rightarrow> error + float64 list \<times> float64 list" where
  "fig5_datos df =
     bind_error (requiere df [''ubicacion'', ''causa_mortalidad'', ''sexo'',
                              ''tasa_mortalidad'']) (\<lambda>u.
     let causas = [''Cancer'', ''Cardio'', ''Cerebro'', ''Suicidio''];
         tasas_h = map (\<lambda>c. media_sexo c ''Hombres'' (filas df)) causas;
         tasas_m = map (\<lambda>c. media_sexo c ''Mujeres'' (filas df)) causas
     in Inr (tasas_h, tasas_m))"

text \<open>\<^verbatim>\<open>df[(ubicacion) & (causa) & (sexo) & (periodo == anio)]['esperanza_vida'].values[0]\<close>\<close>

definition esperanza_en :: "string \<Rightarrow> int \<Rightarrow> fila list \<Rightarrow> error + real" where
  "esperanza_en sx anio df =
     values0 (map esperanza_vida
       [r \<leftarrow> df. ubicacion r = ''Comunitat Valenciana'' \<and> causa_mortalidad r = ''General'' \<and>
                 sexo r = sx \<and> periodo r = anio])"

definition fig6_datos :: "biblioteca \<Rightarrow> dataframe \<Rightarrow> error + fila list list \<times> real \<times> real \<times> real" where
  "fig6_datos L df =
     bind_error (requiere df [''ubicacion'', ''causa_mortalidad'', ''sexo'', ''periodo'',
                              ''esperanza_vida'']) (\<lambda>u.
     let lineas = map (\<lambda>sx. por_periodo L
                              (seleccion ''Comunitat Valenciana'' ''General'' sx (filas df)))
                      [''Hombres'', ''Mujeres'', ''Ambos sexos'']
     in bind_error (esperanza_en ''Hombres'' 2023 (filas df)) (\<lambda>ev_h_2023.
        bind_error (esperanza_en ''Mujeres'' 2023 (filas df)) (\<lambda>ev_m_2023.
        Inr (lineas, ev_h_2023, ev_m_2023, ev_m_2023 - ev_h_2023))))"

text \<open>
  Figure 7: the mean of every department (grouped by location and province), in
  ascending order of the mean, and the mean of those means.
\<close>

definition fig7_medias :: "fila list \<Rightarrow> ((string \<times> string) \<times> real) list" where
  "fig7_medias df = groupby_mean (\<lambda>r. (ubicacion r, provincia r)) (departamentos df)"

definition fig7_ranking :: "biblioteca \<Rightarrow> fila list \<Rightarrow> ((string \<times> string) \<times> real) list" where
  "fig7_ranking L df = sort_values L (\<lambda>kv. Fin (snd kv)) True (fig7_medias df)"

definition fig7_datos ::
  "biblioteca \<Rightarrow> dataframe \<Rightarrow> error + ((string \<times> string) \<times> real) list \<times> float64" where
  "fig7_datos L df =
     bind_error (requiere df [''causa_mortalidad'', ''sexo'', ''nivel_geografico'',
                              ''ubicacion'', ''provincia'', ''tasa_mortalidad'']) (\<lambda>u.
     let ranking = fig7_ranking L (filas df)
     in Inr (ranking, media (map snd ranking)))"

subsection \<open>Figure 8: the pivot\<close>

text \<open>
  The frame \<^verbatim>\<open>pivot_table\<close> returns: a row label per location, a column label per
  year, and a matrix of cells. A column assigned later carries a name instead of a year.
\<close>

datatype etiqueta = Anio int | Nombre string

record marco =
  indice :: "string list"
  etiquetas :: "etiqueta list"
  celdas :: "float64 list list"

text \<open>
  \<^verbatim>\<open>datos.pivot_table(index='ubicacion', columns='periodo', values='tasa_mortalidad')\<close>:
  the default aggregate is the mean; the locations and the years that occur, each in
  order; the cell of a pair no row has is NaN.
\<close>

definition pivot_table :: "fila list \<Rightarrow> marco" where
  "pivot_table datos =
     (let ubicaciones = sort (remdups (map ubicacion datos));
          periodos = sort (remdups (map periodo datos))
      in \<lparr>indice = ubicaciones,
          etiquetas = map Anio periodos,
          celdas = map (\<lambda>u. map (\<lambda>p. media (map tasa_mortalidad
                                       [r \<leftarrow> datos. ubicacion r = u \<and> periodo r = p]))
                                 periodos)
                       ubicaciones\<rparr>)"

text \<open>\<^verbatim>\<open>marco.mean(axis=1)\<close>: the mean of each row over its cells that are not NaN.\<close>

fun finitos :: "float64 list \<Rightarrow> real list" where
  "finitos [] = []"
| "finitos (Fin x # cs) = x # finitos cs"
| "finitos (c # cs) = finitos cs"

definition mean_axis1 :: "marco \<Rightarrow> float64 list" where
  "mean_axis1 m = map (\<lambda>cs. media (finitos cs)) (celdas m)"

definition posicion :: "etiqueta \<Rightarrow> etiqueta list \<Rightarrow> nat" where
  "posicion e es = length (takeWhile (\<lambda>x. x \<noteq> e) es)"

text \<open>\<^verbatim>\<open>marco[e] = vs\<close>: a new last column, or the column of that label replaced.\<close>

definition setitem :: "etiqueta \<Rightarrow> float64 list \<Rightarrow> marco \<Rightarrow> marco" where
  "setitem e vs m =
     (if e \<in> set (etiquetas m)
      then m\<lparr>celdas := map2 (\<lambda>cs v. cs[posicion e (etiquetas m) := v]) (celdas m) vs\<rparr>
      else m\<lparr>etiquetas := etiquetas m @ [e],
             celdas := map2 (\<lambda>cs v. cs @ [v]) (celdas m) vs\<rparr>)"

text \<open>\<^verbatim>\<open>marco.sort_values(e, ascending=asc)\<close>: a new frame, the rows in the order of column \<open>e\<close>.\<close>

definition sort_values_marco :: "biblioteca \<Rightarrow> etiqueta \<Rightarrow> bool \<Rightarrow> marco \<Rightarrow> error + marco" where
  "sort_values_marco L e asc m =
     (if e \<notin> set (etiquetas m) then Inl KeyError
      else let j = posicion e (etiquetas m);
               p = sort_indexer L asc (map (\<lambda>cs. cs ! j) (celdas m))
           in Inr (m\<lparr>indice := map (\<lambda>i. indice m ! i) p,
                      celdas := map (\<lambda>i. celdas m ! i) p\<rparr>))"

text \<open>\<^verbatim>\<open>marco.drop(e, axis=1)\<close>: a new frame without that column.\<close>

definition quitar :: "nat \<Rightarrow> 'a list \<Rightarrow> 'a list" where
  "quitar j xs = take j xs @ drop (Suc j) xs"

definition drop_columna :: "etiqueta \<Rightarrow> marco \<Rightarrow> error + marco" where
  "drop_columna e m =
     (if e \<notin> set (etiquetas m) then Inl KeyError
      else let j = posicion e (etiquetas m)
           in Inr (m\<lparr>etiquetas := quitar j (etiquetas m),
                      celdas := map (quitar j) (celdas m)\<rparr>))"

definition fig8_columnas :: "string list" where
  "fig8_columnas = [''causa_mortalidad'', ''sexo'', ''nivel_geografico'', ''ubicacion'',
                    ''periodo'', ''tasa_mortalidad'']"

text \<open>The frame figure 8 draws (lines 577-587), as a value.\<close>

definition fig8_datos :: "biblioteca \<Rightarrow> dataframe \<Rightarrow> error + marco" where
  "fig8_datos L df =
     bind_error (requiere df fig8_columnas) (\<lambda>u.
     let heatmap_data = pivot_table (departamentos (filas df));
         con_promedio = setitem (Nombre ''promedio'') (mean_axis1 heatmap_data) heatmap_data
     in bind_error (sort_values_marco L (Nombre ''promedio'') False con_promedio) (\<lambda>ordenado.
        drop_columna (Nombre ''promedio'') ordenado))"

subsection \<open>Figures 9 to 13\<close>

definition fig9_datos ::
  "biblioteca \<Rightarrow> dataframe \<Rightarrow> error + fila list list \<times> (real \<times> real) \<times> float64 \<times> float64" where
  "fig9_datos L df =
     bind_error (requiere df [''ubicacion'', ''causa_mortalidad'', ''sexo'', ''periodo'',
                              ''tasa_mortalidad'']) (\<lambda>u.
     let lineas = map (\<lambda>sx. por_periodo L
                              (seleccion ''Comunitat Valenciana'' ''Suicidio'' sx (filas df)))
                      [''Ambos sexos'', ''Hombres'', ''Mujeres''];
         data_ambos = por_periodo L
                        (seleccion ''Comunitat Valenciana'' ''Suicidio'' ''Ambos sexos'' (filas df))
     in bind_error (polyfit L (map (\<lambda>r. real_of_int (periodo r)) data_ambos)
                              (map tasa_mortalidad data_ambos)) (\<lambda>z.
        bind_error (tasa_en 2010 data_ambos) (\<lambda>inicio.
        bind_error (tasa_en 2023 data_ambos) (\<lambda>fin.
        Inr (lineas, z, cambio_porcentual (Fin inicio) (Fin fin),
             ratio_hm (filas df) ''Suicidio'')))))"

definition fig10_datos ::
  "biblioteca \<Rightarrow> dataframe \<Rightarrow> error + fila list list \<times> (real \<times> real) \<times> real" where
  "fig10_datos L df =
     bind_error (requiere df [''causa_mortalidad'', ''nivel_geografico'', ''sexo'',
                              ''tasa_mortalidad'', ''esperanza_vida'']) (\<lambda>u.
     let scatter_data = [r \<leftarrow> filas df. causa_mortalidad r = ''General'' \<and>
                                         nivel_geografico r = ''HOSPITAL/ZONA SALUD''];
         puntos = map (\<lambda>sx. [r \<leftarrow> scatter_data. sexo r = sx]) [''Hombres'', ''Mujeres''];
         x = map tasa_mortalidad scatter_data;
         y = map esperanza_vida scatter_data
     in bind_error (linregress L x y) (\<lambda>recta.
        bind_error (pearsonr L x y) (\<lambda>corr.
        Inr (puntos, recta, corr))))"

definition fig11_provincias :: "string list" where
  "fig11_provincias =
     [''Alicante'', ''Valencia'', ''Castell'' @ [char_of (195::nat), char_of (179::nat)] @ ''n'']"

definition fig11_datos ::
  "biblioteca \<Rightarrow> dataframe \<Rightarrow> error + (string \<times> fila list) list \<times> fila list" where
  "fig11_datos L df =
     bind_error (requiere df [''provincia'', ''nivel_geografico'', ''causa_mortalidad'',
                              ''sexo'', ''periodo'', ''tasa_mortalidad'', ''ubicacion'']) (\<lambda>u.
     let lineas = map (\<lambda>pr. (pr, por_periodo L
                     [r \<leftarrow> filas df. provincia r = pr \<and> nivel_geografico r = ''PROVINCIA'' \<and>
                        causa_mortalidad r = ''General'' \<and> sexo r = ''Ambos sexos'']))
                   fig11_provincias;
         cv_data = por_periodo L
                     (seleccion ''Comunitat Valenciana'' ''General'' ''Ambos sexos'' (filas df))
     in Inr ([l \<leftarrow> lineas. 0 < length (snd l)], cv_data))"

text \<open>
  Figure 12. Its baseline \<^verbatim>\<open>pre_covid\<close> is the mean over the rows of 2018 and 2019
  (line 824).
\<close>

definition cv_general_ambos :: "biblioteca \<Rightarrow> fila list \<Rightarrow> fila list" where
  "cv_general_ambos L df =
     por_periodo L (seleccion ''Comunitat Valenciana'' ''General'' ''Ambos sexos'' df)"

definition fig12_pre_covid :: "biblioteca \<Rightarrow> fila list \<Rightarrow> float64" where
  "fig12_pre_covid L df = media_en [2018, 2019] (cv_general_ambos L df)"

definition fig12_datos :: "biblioteca \<Rightarrow> dataframe \<Rightarrow> error + float64 list \<times> float64 list" where
  "fig12_datos L df =
     bind_error (requiere df [''ubicacion'', ''causa_mortalidad'', ''sexo'', ''periodo'',
                              ''tasa_mortalidad'']) (\<lambda>u.
     let cv_general = cv_general_ambos L (filas df);
         pre_covid = fig12_pre_covid L (filas df)
     in bind_error (tasa_en 2020 cv_general) (\<lambda>covid_2020.
        bind_error (tasa_en 2021 cv_general) (\<lambda>covid_2021.
        let post_covid = media_en [2022, 2023] cv_general;
            valores = [pre_covid, Fin covid_2020, Fin covid_2021, post_covid];
            variaciones = [Fin 0,
                           cambio_porcentual pre_covid (Fin covid_2020),
                           cambio_porcentual pre_covid (Fin covid_2021),
                           cambio_porcentual pre_covid post_covid]
        in Inr (valores, variaciones))))"

text \<open>
  Figure 13, the dashboard. \<^verbatim>\<open>nlargest\<close> and \<^verbatim>\<open>nsmallest\<close> keep the first of equal
  values (\<^verbatim>\<open>keep='first'\<close>); \<^verbatim>\<open>max\<close> and \<^verbatim>\<open>min\<close> of an empty Series are NaN.
\<close>

definition nlargest :: "nat \<Rightarrow> ('k \<times> real) list \<Rightarrow> ('k \<times> real) list" where
  "nlargest n xs = take n (sort_key (\<lambda>kv. - snd kv) xs)"

definition nsmallest :: "nat \<Rightarrow> ('k \<times> real) list \<Rightarrow> ('k \<times> real) list" where
  "nsmallest n xs = take n (sort_key snd xs)"

definition serie_max :: "real list \<Rightarrow> float64" where
  "serie_max xs = (case xs of [] \<Rightarrow> NaN | x # rest \<Rightarrow> Fin (fold max rest x))"

definition serie_min :: "real list \<Rightarrow> float64" where
  "serie_min xs = (case xs of [] \<Rightarrow> NaN | x # rest \<Rightarrow> Fin (fold min rest x))"

record kpis =
  mort_2023 :: real
  cambio_mort :: float64
  ev_dashboard :: real
  brecha_genero :: real
  exceso_covid :: float64
  valores_covid :: "float64 list"
  causas_ord :: "string list"
  ratios_ord :: "float64 list"
  bottom3 :: "(string \<times> real) list"
  top3 :: "(string \<times> real) list"
  disparidad :: float64
  suicidio :: "fila list"
  cambio_suic :: float64

text \<open>
  The baseline of the dashboard's COVID excess, \<^verbatim>\<open>promedio_historico\<close>: the mean over
  the rows with \<^verbatim>\<open>periodo <= 2019\<close> (line 940).
\<close>

definition fig13_promedio_historico :: "biblioteca \<Rightarrow> fila list \<Rightarrow> float64" where
  "fig13_promedio_historico L df =
     media (map tasa_mortalidad [r \<leftarrow> cv_general_ambos L df. periodo r \<le> 2019])"

definition fig13_causas :: "string list" where
  "fig13_causas = [''Suicidio'', ''Cardio'', ''Cancer'', ''General'', ''Cerebro'']"

definition fig13_datos :: "biblioteca \<Rightarrow> dataframe \<Rightarrow> error + kpis" where
  "fig13_datos L df =
     bind_error (requiere df [''ubicacion'', ''causa_mortalidad'', ''sexo'', ''periodo'',
                              ''tasa_mortalidad'']) (\<lambda>u.
     let cv = cv_general_ambos L (filas df)
     in bind_error (tasa_en 2023 cv) (\<lambda>mort_2023.
        bind_error (tasa_en 2010 cv) (\<lambda>mort_2010.
        let cambio_mort = cambio_porcentual (Fin mort_2010) (Fin mort_2023);
            ev_dashboard = 206 / 10
        in bind_error (requiere df [''esperanza_vida'']) (\<lambda>u.
        let cv_gen_2022 = [r \<leftarrow> filas df. ubicacion r = ''Comunitat Valenciana'' \<and>
                                          causa_mortalidad r = ''General'' \<and> periodo r = 2022]
        in bind_error (values0 (map esperanza_vida [r \<leftarrow> cv_gen_2022. sexo r = ''Hombres''])) (\<lambda>ev_h_2022.
        bind_error (values0 (map esperanza_vida [r \<leftarrow> cv_gen_2022. sexo r = ''Mujeres''])) (\<lambda>ev_m_2022.
        let brecha_genero = ev_m_2022 - ev_h_2022;
            promedio_historico = fig13_promedio_historico L (filas df)
        in bind_error (tasa_en 2021 cv) (\<lambda>covid_2021.
        let exceso_covid = cambio_porcentual promedio_historico (Fin covid_2021);
            pre_covid = media_en [2018, 2019] cv
        in bind_error (tasa_en 2020 cv) (\<lambda>covid_2020.
        let post_covid = media_en [2022, 2023] cv;
            ratios_calculados = map (ratio_hm (filas df)) fig13_causas
        in bind_error (requiere df [''nivel_geografico'']) (\<lambda>u.
        let ranking = groupby_mean ubicacion (departamentos (filas df));
            top3 = nlargest 3 ranking;
            bottom3 = nsmallest 3 ranking;
            disparidad = cambio_porcentual (serie_min (map snd ranking))
                                           (serie_max (map snd ranking));
            suicidio = por_periodo L
                         (seleccion ''Comunitat Valenciana'' ''Suicidio'' ''Ambos sexos'' (filas df))
        in bind_error (tasa_en 2010 suicidio) (\<lambda>suic_2010.
        bind_error (tasa_en 2023 suicidio) (\<lambda>suic_2023.
        let cambio_suic = cambio_porcentual (Fin suic_2010) (Fin suic_2023);
            orden = rev (argsort L ratios_calculados)
        in Inr \<lparr>mort_2023 = mort_2023, cambio_mort = cambio_mort,
                ev_dashboard = ev_dashboard, brecha_genero = brecha_genero,
                exceso_covid = exceso_covid,
                valores_covid = [pre_covid, Fin covid_2020, Fin covid_2021, post_covid],
                causas_ord = map (\<lambda>i. fig13_causas ! i) orden,
                ratios_ord = map (\<lambda>i. ratios_calculados ! i) orden,
                bottom3 = bottom3, top3 = top3, disparidad = disparidad,
                suicidio = suicidio, cambio_suic = cambio_suic\<rparr>)))))))))))"

subsection \<open>The loader\<close>

text \<open>
  \<^verbatim>\<open>cargar_datos\<close> (lines 75-93): \<^verbatim>\<open>pd.read_csv(filepath, sep=';')\<close>, whose exception is
  not caught; then the report, which subscripts the columns \<^verbatim>\<open>periodo\<close> and
  \<^verbatim>\<open>causa_mortalidad\<close> and so raises KeyError when the header read with that separator
  lacks one of them. No other label of the header is looked at.
\<close>

definition cargar_datos :: "biblioteca \<Rightarrow> string \<Rightarrow> error + dataframe" where
  "cargar_datos L filepath =
     bind_error (read_csv L filepath (CHR '';'')) (\<lambda>df.
     bind_error (requiere df [''periodo'']) (\<lambda>u.
     bind_error (requiere df [''causa_mortalidad'']) (\<lambda>u.
     Inr df)))"

subsection \<open>Objects, and the figure functions on them\<close>

text \<open>
  The DataFrame \<^verbatim>\<open>df\<close> is one object, shared by every figure function; an expression
  that builds a frame (\<^verbatim>\<open>pivot_table\<close>, \<^verbatim>\<open>sort_values\<close>, \<^verbatim>\<open>drop\<close>) allocates a new
  object, and \<^verbatim>\<open>marco[e] = vs\<close> writes into the object its variable refers to. The
  memory is the list of the objects, an object's reference its position.

  The selections \<^verbatim>\<open>df[mask]\<close> and the Series are copies that are only read; they are
  values here. The one assignment into a frame in the source is line 585.
\<close>

datatype objeto = DataFrame dataframe | Marco marco

type_synonym memoria = "objeto list"

text \<open>
  The argument \<^verbatim>\<open>df\<close> of a figure function, read through its reference. In the source
  it is always the table the loader returned; for a reference to anything else the
  model answers \<open>TypeError\<close>.
\<close>

definition leer :: "memoria \<Rightarrow> nat \<Rightarrow> error + dataframe" where
  "leer mem ref =
     (if ref < length mem
      then (case mem ! ref of DataFrame df \<Rightarrow> Inr df | Marco m \<Rightarrow> Inl TypeError)
      else Inl TypeError)"

definition os_path_join :: "string \<Rightarrow> string \<Rightarrow> string" where
  "os_path_join a b = (if a = [] then b else if last a = CHR ''/'' then a @ b else a @ ''/'' @ b)"

text \<open>
  The shape of twelve of the figure functions: compute from \<^verbatim>\<open>df\<close>, draw, save, return
  the path of the file. None of them assigns into a frame, so the memory is returned as
  it was.
\<close>

definition figura ::
  "biblioteca \<Rightarrow> nat \<Rightarrow> (dataframe \<Rightarrow> error + 'a) \<Rightarrow> string \<Rightarrow> string \<Rightarrow> nat \<Rightarrow> memoria
   \<Rightarrow> (error + string) \<times> memoria" where
  "figura L k datos nombre output_dir ref mem =
     (bind_error (leer mem ref) (\<lambda>df.
      bind_error (datos df) (\<lambda>d.
      case dibujar L k (filas df) of
        Some e \<Rightarrow> Inl e
      | None \<Rightarrow> Inr (os_path_join output_dir nombre))),
      mem)"

definition fig1_evolucion_mortalidad_general where
  "fig1_evolucion_mortalidad_general L =
     figura L 1 (fig1_datos L) ''fig1_evolucion_mortalidad_general.png''"

definition fig2_jerarquia_causas where
  "fig2_jerarquia_causas L =
     figura L 2 (fig2_datos L) ''fig2_jerarquia_causas_mortalidad.png''"

definition fig3_evolucion_causas_especificas where
  "fig3_evolucion_causas_especificas L =
     figura L 3 (fig3_datos L) ''fig3_evolucion_causas_especificas.png''"

definition fig4_disparidad_genero_ratio where
  "fig4_disparidad_genero_ratio L =
     figura L 4 (fig4_datos L) ''fig4_disparidad_genero_ratio.png''"

definition fig5_comparativa_sexo_causa where
  "fig5_comparativa_sexo_causa L =
     figura L 5 fig5_datos ''fig5_comparativa_sexo_causa.png''"

definition fig6_esperanza_vida_genero where
  "fig6_esperanza_vida_genero L =
     figura L 6 (fig6_datos L) ''fig6_esperanza_vida_genero.png''"

definition fig7_ranking_departamentos where
  "fig7_ranking_departamentos L =
     figura L 7 (fig7_datos L) ''fig7_ranking_departamentos.png''"

text \<open>
  Figure 8 (lines 577-587), statement by statement: \<^verbatim>\<open>heatmap_data\<close> refers to the new
  object \<open>h\<close> of the pivot; line 585 writes the column \<^verbatim>\<open>promedio\<close> into \<open>h\<close>; lines 586
  and 587 each bind \<^verbatim>\<open>heatmap_data\<close> to a new object.
\<close>

definition escribir_marco :: "memoria \<Rightarrow> nat \<Rightarrow> (marco \<Rightarrow> marco) \<Rightarrow> memoria" where
  "escribir_marco mem h f =
     mem[h := (case mem ! h of Marco m \<Rightarrow> Marco (f m) | DataFrame df \<Rightarrow> DataFrame df)]"

definition marco_en :: "memoria \<Rightarrow> nat \<Rightarrow> marco" where
  "marco_en mem h =
     (case mem ! h of Marco m \<Rightarrow> m
      | DataFrame df \<Rightarrow> \<lparr>indice = [], etiquetas = [], celdas = []\<rparr>)"

definition fig8_heatmap_departamentos ::
  "biblioteca \<Rightarrow> string \<Rightarrow> nat \<Rightarrow> memoria \<Rightarrow> (error + string) \<times> memoria" where
  "fig8_heatmap_departamentos L output_dir ref mem =
     (case leer mem ref of
        Inl e \<Rightarrow> (Inl e, mem)
      | Inr df \<Rightarrow>
         (case requiere df fig8_columnas of
            Inl e \<Rightarrow> (Inl e, mem)
          | Inr u \<Rightarrow>
             let h = length mem;
                 mem1 = mem @ [Marco (pivot_table (departamentos (filas df)))];
                 mem2 = escribir_marco mem1 h
                          (setitem (Nombre ''promedio'') (mean_axis1 (marco_en mem1 h)))
             in (case sort_values_marco L (Nombre ''promedio'') False (marco_en mem2 h) of
                   Inl e \<Rightarrow> (Inl e, mem2)
                 | Inr ordenado \<Rightarrow>
                    let h2 = length mem2;
                        mem3 = mem2 @ [Marco ordenado]
                    in (case drop_columna (Nombre ''promedio'') (marco_en mem3 h2) of
                          Inl e \<Rightarrow> (Inl e, mem3)
                        | Inr sin_promedio \<Rightarrow>
                           let mem4 = mem3 @ [Marco sin_promedio]
                           in (case dibujar L 8 (filas df) of
                                 Some e \<Rightarrow> (Inl e, mem4)
                               | None \<Rightarrow>
                                  (Inr (os_path_join output_dir ''fig8_heatmap_departamentos.png''),
                                   mem4))))))"

definition fig9_tendencia_suicidio where
  "fig9_tendencia_suicidio L =
     figura L 9 (fig9_datos L) ''fig9_tendencia_suicidio.png''"

definition fig10_scatter_correlacion where
  "fig10_scatter_correlacion L =
     figura L 10 (fig10_datos L) ''fig10_scatter_correlacion.png''"

definition fig11_comparativa_provincias where
  "fig11_comparativa_provincias L =
     figura L 11 (fig11_datos L) ''fig11_comparativa_provincias.png''"

definition fig12_impacto_covid where
  "fig12_impacto_covid L =
     figura L 12 (fig12_datos L) ''fig12_impacto_covid.png''"

definition fig13_dashboard_resumen where
  "fig13_dashboard_resumen L =
     figura L 13 (fig13_datos L) ''fig13_dashboard_resumen.png''"

subsection \<open>The pipeline\<close>

definition OUTPUT_DIR :: string where
  "OUTPUT_DIR = ''figuras''"

definition las_figuras ::
  "biblioteca \<Rightarrow> (string \<Rightarrow> nat \<Rightarrow> memoria \<Rightarrow> (error + string) \<times> memoria) list" where
  "las_figuras L =
     [fig1_evolucion_mortalidad_general L, fig2_jerarquia_causas L,
      fig3_evolucion_causas_especificas L, fig4_disparidad_genero_ratio L,
      fig5_comparativa_sexo_causa L, fig6_esperanza_vida_genero L,
      fig7_ranking_departamentos L, fig8_heatmap_departamentos L,
      fig9_tendencia_suicidio L, fig10_scatter_correlacion L,
      fig11_comparativa_provincias L, fig12_impacto_covid L,
      fig13_dashboard_resumen L]"

text \<open>
  The calls of lines 1149-1161, one after the other; an exception ends the run, since
  nothing catches it.
\<close>

fun ejecutar ::
  "(string \<Rightarrow> nat \<Rightarrow> memoria \<Rightarrow> (error + string) \<times> memoria) list \<Rightarrow> nat \<Rightarrow> string list
   \<Rightarrow> memoria \<Rightarrow> (error + string list) \<times> memoria" where
  "ejecutar [] ref figuras mem = (Inr figuras, mem)"
| "ejecutar (f # fs) ref figuras mem =
     (case f OUTPUT_DIR ref mem of
        (Inl e, mem') \<Rightarrow> (Inl e, mem')
      | (Inr ruta, mem') \<Rightarrow> ejecutar fs ref (figuras @ [ruta]) mem')"

definition generar_todas_las_figuras ::
  "biblioteca \<Rightarrow> string \<Rightarrow> memoria \<Rightarrow> (error + string list) \<times> memoria" where
  "generar_todas_las_figuras L filepath_datos mem =
     (case cargar_datos L filepath_datos of
        Inl e \<Rightarrow> (Inl e, mem)
      | Inr df \<Rightarrow> ejecutar (las_figuras L) (length mem) [] (mem @ [DataFrame df]))"

subsection \<open>A library to run the model on\<close>

text \<open>
  One library that meets \<open>biblioteca_ok\<close>, used to evaluate the model on concrete
  tables: both sorts are insertion sorts that keep equal keys in their order (the
  descending one the way pandas derives it from the ascending one: reverse, sort,
  reverse), the fits are the least squares formulas, drawing never fails, and reading
  is given by a table of files.
\<close>

fun insertar :: "float64 list \<Rightarrow> nat \<Rightarrow> nat list \<Rightarrow> nat list" where
  "insertar xs i [] = [i]"
| "insertar xs i (j # p) = (if np_le (xs ! j) (xs ! i) then j # insertar xs i p else i # j # p)"

definition argsort_estable :: "float64 list \<Rightarrow> nat list" where
  "argsort_estable xs = fold (insertar xs) [0..<length xs] []"

definition sort_indexer_estable :: "bool \<Rightarrow> float64 list \<Rightarrow> nat list" where
  "sort_indexer_estable asc xs =
     (if asc then argsort_estable xs
      else rev (map (\<lambda>i. length xs - 1 - i) (argsort_estable (rev xs))))"

definition minimos_cuadrados :: "real list \<Rightarrow> real list \<Rightarrow> real \<times> real" where
  "minimos_cuadrados xs ys =
     (let n = real (length xs);
          sx = sum_list xs; sy = sum_list ys;
          sxy = sum_list (map2 (*) xs ys); sxx = sum_list (map (\<lambda>x. x * x) xs);
          pendiente = (n * sxy - sx * sy) / (n * sxx - sx * sx)
      in (pendiente, (sy - pendiente * sx) / n))"

definition correlacion :: "real list \<Rightarrow> real list \<Rightarrow> real" where
  "correlacion xs ys =
     (let n = real (length xs);
          mx = sum_list xs / n; my = sum_list ys / n;
          sxy = sum_list (map2 (\<lambda>x y. (x - mx) * (y - my)) xs ys);
          sxx = sum_list (map (\<lambda>x. (x - mx) * (x - mx)) xs);
          syy = sum_list (map (\<lambda>y. (y - my) * (y - my)) ys)
      in sxy / sqrt (sxx * syy))"

definition biblioteca_estable :: "(string \<Rightarrow> char \<Rightarrow> error + dataframe) \<Rightarrow> biblioteca" where
  "biblioteca_estable lector =
     \<lparr>read_csv = lector,
      argsort = argsort_estable,
      sort_indexer = sort_indexer_estable,
      polyfit = (\<lambda>xs ys. if xs = [] then Inl TypeError else Inr (minimos_cuadrados xs ys)),
      linregress = (\<lambda>xs ys. if length xs < 2 then Inl ValueError
                             else Inr (minimos_cuadrados xs ys)),
      pearsonr = (\<lambda>xs ys. if length xs < 2 then Inl ValueError else Inr (correlacion xs ys)),
      dibujar = (\<lambda>k rows. None)\<rparr>"

definition sin_archivos :: "string \<Rightarrow> char \<Rightarrow> error + dataframe" where
  "sin_archivos ruta sep = Inl FileNotFoundError"

definition fila_de ::
  "int \<Rightarrow> string \<Rightarrow> string \<Rightarrow> string \<Rightarrow> string \<Rightarrow> string \<Rightarrow> real \<Rightarrow> real \<Rightarrow> fila" where
  "fila_de p c s u pr n t e =
     \<lparr>periodo = p, causa_mortalidad = c, sexo = s, ubicacion = u, provincia = pr,
      nivel_geografico = n, tasa_mortalidad = t, esperanza_vida = e\<rparr>"

subsection \<open>Example tables\<close>

text \<open>Small tables on which the model is evaluated in the examples below.\<close>

definition biblioteca_modelo :: biblioteca where
  "biblioteca_modelo = biblioteca_estable sin_archivos"

definition tabla_causas :: "fila list" where
  "tabla_causas =
     [fila_de 2010 ''General'' ''Ambos sexos'' ''Comunitat Valenciana'' [] ''COMUNIDAD'' 900 20,
      fila_de 2010 ''Cancer'' ''Ambos sexos'' ''Comunitat Valenciana'' [] ''COMUNIDAD'' 200 0,
      fila_de 2011 ''Cancer'' ''Ambos sexos'' ''Comunitat Valenciana'' [] ''COMUNIDAD'' 210 0,
      fila_de 2011 ''Cancer'' ''Hombres'' ''Comunitat Valenciana'' [] ''COMUNIDAD'' 300 0]"

text \<open>A file system with one file, which \<^verbatim>\<open>read_csv\<close> reads (with the separator \<^verbatim>\<open>;\<close>) as the given frame.\<close>

definition archivo_unico :: "string \<Rightarrow> dataframe \<Rightarrow> string \<Rightarrow> char \<Rightarrow> error + dataframe" where
  "archivo_unico nombre df ruta sep =
     (if ruta = nombre \<and> sep = CHR '';'' then Inr df else Inl FileNotFoundError)"

definition df_causas :: dataframe where
  "df_causas = \<lparr>columnas = columnas_esperadas, filas = tabla_causas\<rparr>"

definition tabla_ratio :: "fila list" where
  "tabla_ratio =
     [fila_de 2010 ''Cancer'' ''Hombres'' ''Comunitat Valenciana'' [] ''COMUNIDAD'' 20 0,
      fila_de 2011 ''Cancer'' ''Hombres'' ''Comunitat Valenciana'' [] ''COMUNIDAD'' 40 0,
      fila_de 2010 ''Cancer'' ''Mujeres'' ''Comunitat Valenciana'' [] ''COMUNIDAD'' 10 0,
      fila_de 2010 ''Suicidio'' ''Hombres'' ''Comunitat Valenciana'' [] ''COMUNIDAD'' 5 0,
      fila_de 2010 ''Suicidio'' ''Mujeres'' ''Comunitat Valenciana'' [] ''COMUNIDAD'' 0 0]"

definition anual :: "int \<Rightarrow> real \<Rightarrow> fila" where
  "anual p t = fila_de p ''General'' ''Ambos sexos'' ''Comunitat Valenciana'' []
                 ''COMUNIDAD'' t 20"

text \<open>
  Rates that are not constant over 2010-2019 (900, 940, then 920) and whose mean over
  those ten years is the mean of 2018 and 2019.
\<close>

definition tabla_cv :: "fila list" where
  "tabla_cv =
     [anual 2010 900, anual 2011 940, anual 2012 920, anual 2013 920, anual 2014 920,
      anual 2015 920, anual 2016 920, anual 2017 920, anual 2018 920, anual 2019 920,
      anual 2020 1000, anual 2021 1012, anual 2022 890, anual 2023 810,
      fila_de 2022 ''General'' ''Hombres'' ''Comunitat Valenciana'' [] ''COMUNIDAD'' 1100 19,
      fila_de 2022 ''General'' ''Mujeres'' ''Comunitat Valenciana'' [] ''COMUNIDAD'' 700 (228 / 10),
      fila_de 2010 ''Suicidio'' ''Ambos sexos'' ''Comunitat Valenciana'' [] ''COMUNIDAD'' 8 0,
      fila_de 2023 ''Suicidio'' ''Ambos sexos'' ''Comunitat Valenciana'' [] ''COMUNIDAD'' 9 0]"

text \<open>The same, with a higher rate in 2010: the two means differ.\<close>

definition tabla_cv_alta :: "fila list" where
  "tabla_cv_alta = anual 2010 1000 # tl tabla_cv"

text \<open>The table \<open>tabla_cv\<close> with another life expectancy of women in 2022.\<close>

definition tabla_cv_brecha :: "fila list" where
  "tabla_cv_brecha =
     map (\<lambda>r. if sexo r = ''Mujeres'' then r\<lparr>esperanza_vida := 24\<rparr> else r) tabla_cv"

definition df_cv :: dataframe where
  "df_cv = \<lparr>columnas = columnas_esperadas, filas = tabla_cv\<rparr>"

definition df_cv_brecha :: dataframe where
  "df_cv_brecha = \<lparr>columnas = columnas_esperadas, filas = tabla_cv_brecha\<rparr>"

text \<open>
  Three files as \<^verbatim>\<open>read_csv\<close> with the separator \<^verbatim>\<open>;\<close> reads them. A file written
  with commas has one column, whose label is the whole header line. A file whose
  header names the year \<^verbatim>\<open>anio\<close> lacks the column \<^verbatim>\<open>periodo\<close>. A file with the
  two columns of the report and two unexpected ones.
\<close>

definition df_comas :: dataframe where
  "df_comas =
     \<lparr>columnas = [''periodo,causa_mortalidad,sexo,ubicacion,provincia,nivel_geografico,tasa_mortalidad,esperanza_vida''],
      filas = []\<rparr>"

definition df_anio :: dataframe where
  "df_anio =
     \<lparr>columnas = [''anio'', ''causa_mortalidad'', ''sexo'', ''ubicacion'', ''provincia'',
                  ''nivel_geografico'', ''tasa_mortalidad'', ''esperanza_vida''],
      filas = []\<rparr>"

definition df_otras :: dataframe where
  "df_otras = \<lparr>columnas = [''periodo'', ''causa_mortalidad'', ''x'', ''y''], filas = []\<rparr>"

text \<open>Two departments and two years; one row of the region, which the filter drops.\<close>

definition depto :: "int \<Rightarrow> string \<Rightarrow> string \<Rightarrow> real \<Rightarrow> fila" where
  "depto p u pr t = fila_de p ''General'' ''Ambos sexos'' u pr ''HOSPITAL/ZONA SALUD'' t 20"

definition tabla_deptos :: "fila list" where
  "tabla_deptos =
     [depto 2010 ''Alcoi'' ''Alicante'' 800, depto 2011 ''Alcoi'' ''Alicante'' 820,
      depto 2010 ''Gandia'' ''Valencia'' 900, depto 2011 ''Gandia'' ''Valencia'' 930,
      depto 2011 ''Gandia'' ''Valencia'' 950,
      anual 2010 900]"

definition df_deptos :: dataframe where
  "df_deptos = \<lparr>columnas = columnas_esperadas, filas = tabla_deptos\<rparr>"

text \<open>Every cause with the male rate 20 and the female rate 10: five equal ratios.\<close>

definition tabla_empate :: "fila list" where
  "tabla_empate =
     concat (map (\<lambda>c. [fila_de 2010 c ''Hombres'' ''Comunitat Valenciana'' [] ''COMUNIDAD'' 20 0,
                        fila_de 2010 c ''Mujeres'' ''Comunitat Valenciana'' [] ''COMUNIDAD'' 10 0])
                 [''General'', ''Cancer'', ''Cardio'', ''Cerebro'', ''Suicidio''])"

definition df_empate :: dataframe where
  "df_empate = \<lparr>columnas = columnas_esperadas, filas = tabla_empate\<rparr>"

text \<open>A table on which every figure function gets to the end.\<close>

definition tabla_completa :: "fila list" where
  "tabla_completa =
     [anual 2010 900, anual 2018 920, anual 2019 930, anual 2020 1000, anual 2021 1010,
      anual 2022 890, anual 2023 810,
      fila_de 2022 ''General'' ''Hombres'' ''Comunitat Valenciana'' [] ''COMUNIDAD'' 1100 19,
      fila_de 2023 ''General'' ''Hombres'' ''Comunitat Valenciana'' [] ''COMUNIDAD'' 1000 (96 / 5),
      fila_de 2022 ''General'' ''Mujeres'' ''Comunitat Valenciana'' [] ''COMUNIDAD'' 700 (114 / 5),
      fila_de 2023 ''General'' ''Mujeres'' ''Comunitat Valenciana'' [] ''COMUNIDAD'' 650 23,
      fila_de 2010 ''Cancer'' ''Ambos sexos'' ''Comunitat Valenciana'' [] ''COMUNIDAD'' 250 0,
      fila_de 2023 ''Cancer'' ''Ambos sexos'' ''Comunitat Valenciana'' [] ''COMUNIDAD'' 220 0,
      fila_de 2010 ''Cardio'' ''Ambos sexos'' ''Comunitat Valenciana'' [] ''COMUNIDAD'' 80 0,
      fila_de 2023 ''Cardio'' ''Ambos sexos'' ''Comunitat Valenciana'' [] ''COMUNIDAD'' 50 0,
      fila_de 2010 ''Cerebro'' ''Ambos sexos'' ''Comunitat Valenciana'' [] ''COMUNIDAD'' 60 0,
      fila_de 2023 ''Cerebro'' ''Ambos sexos'' ''Comunitat Valenciana'' [] ''COMUNIDAD'' 40 0,
      fila_de 2010 ''Suicidio'' ''Ambos sexos'' ''Comunitat Valenciana'' [] ''COMUNIDAD'' 8 0,
      fila_de 2023 ''Suicidio'' ''Ambos sexos'' ''Comunitat Valenciana'' [] ''COMUNIDAD'' 9 0,
      depto 2010 ''Alcoi'' ''Alicante'' 800, depto 2011 ''Alcoi'' ''Alicante'' 820,
      depto 2010 ''Gandia'' ''Valencia'' 900, depto 2011 ''Gandia'' ''Valencia'' 940]"

definition df_completa :: dataframe where
  "df_completa = \<lparr>columnas = columnas_esperadas, filas = tabla_completa\<rparr>"

section \<open>Properties\<close>

subsection \<open>The library of the model meets the contract\<close>

lemma np_le_refl: "np_le a a"
  by (cases a) simp_all

lemma np_le_total: "np_le a b \<or> np_le b a"
  by (cases a; cases b) auto

lemma np_le_trans: "np_le a b \<Longrightarrow> np_le b c \<Longrightarrow> np_le a c"
  by (cases a; cases b; cases c) auto

lemma set_insertar: "set (insertar xs i p) = insert i (set p)"
  by (induction p) auto

lemma length_insertar: "length (insertar xs i p) = Suc (length p)"
  by (induction p) auto

lemma sorted_insertar:
  "sorted_wrt (\<lambda>i j. np_le (xs ! i) (xs ! j)) p \<Longrightarrow>
   sorted_wrt (\<lambda>i j. np_le (xs ! i) (xs ! j)) (insertar xs i p)"
proof (induction p)
  case Nil
  then show ?case by simp
next
  case (Cons j p)
  show ?case
  proof (cases "np_le (xs ! j) (xs ! i)")
    case True
    with Cons show ?thesis by (auto simp: set_insertar)
  next
    case False
    then have "np_le (xs ! i) (xs ! j)" using np_le_total by blast
    with Cons.prems False show ?thesis by (auto intro: np_le_trans)
  qed
qed

lemma fold_insertar:
  "set (fold (insertar xs) is p) = set is \<union> set p \<and>
   length (fold (insertar xs) is p) = length is + length p \<and>
   (sorted_wrt (\<lambda>i j. np_le (xs ! i) (xs ! j)) p \<longrightarrow>
    sorted_wrt (\<lambda>i j. np_le (xs ! i) (xs ! j)) (fold (insertar xs) is p))"
  by (induction "is" arbitrary: p) (auto simp: set_insertar length_insertar sorted_insertar)

lemma argsort_estable_perm: "es_permutacion (argsort_estable xs) (length xs)"
  using fold_insertar [of xs "[0..<length xs]" "[]"]
  by (simp add: es_permutacion_def argsort_estable_def)

lemma argsort_estable_asc: "ascendente xs (argsort_estable xs)"
  using fold_insertar [of xs "[0..<length xs]" "[]"]
  by (simp add: ascendente_def argsort_estable_def)

lemma espejo_perm:
  assumes "es_permutacion p n"
  shows "es_permutacion (rev (map (\<lambda>i. n - 1 - i) p)) n"
proof -
  from assms have l: "length p = n" and s: "set p = {0..<n}"
    by (simp_all add: es_permutacion_def)
  have "(\<lambda>i. n - 1 - i) ` {0..<n} = {0..<n}"
  proof (intro equalityI subsetI)
    fix x assume "x \<in> (\<lambda>i. n - 1 - i) ` {0..<n}"
    then show "x \<in> {0..<n}" by auto
  next
    fix x assume "x \<in> {0..<n}"
    then have "x = n - 1 - (n - 1 - x)" and "n - 1 - x \<in> {0..<n}" by auto
    then show "x \<in> (\<lambda>i. n - 1 - i) ` {0..<n}" by blast
  qed
  with l s show ?thesis by (simp add: es_permutacion_def)
qed

lemma sort_indexer_estable_perm: "es_permutacion (sort_indexer_estable asc xs) (length xs)"
  using argsort_estable_perm [of xs] argsort_estable_perm [of "rev xs"] espejo_perm [of "argsort_estable (rev xs)" "length xs"]
  by (simp add: sort_indexer_estable_def)

lemma sort_indexer_estable_desc: "descendente xs (sort_indexer_estable False xs)"
proof -
  let ?n = "length xs"
  let ?p = "argsort_estable (rev xs)"
  have p: "set ?p = {0..<?n}"
    using argsort_estable_perm [of "rev xs"] by (simp add: es_permutacion_def)
  have "sorted_wrt (\<lambda>i j. np_le (rev xs ! i) (rev xs ! j)) ?p"
    using argsort_estable_asc [of "rev xs"] by (simp add: ascendente_def)
  then have "sorted_wrt (\<lambda>i j. np_le (xs ! (?n - 1 - i)) (xs ! (?n - 1 - j))) ?p"
    by (rule sorted_wrt_mono_rel [rotated]) (use p in \<open>auto simp: rev_nth Suc_diff_Suc\<close>)
  then have "sorted_wrt (\<lambda>a b. np_le (xs ! a) (xs ! b)) (map (\<lambda>i. ?n - 1 - i) ?p)"
    by (simp add: sorted_wrt_map)
  then have "sorted_wrt (\<lambda>a b. np_le (xs ! b) (xs ! a)) (rev (map (\<lambda>i. ?n - 1 - i) ?p))"
    by (simp add: sorted_wrt_rev)
  then show ?thesis by (simp only: descendente_def sort_indexer_estable_def if_False)
qed

lemma biblioteca_estable_ok: "biblioteca_ok (biblioteca_estable lector)"
  using argsort_estable_perm argsort_estable_asc sort_indexer_estable_perm sort_indexer_estable_desc
  by (simp add: biblioteca_ok_def biblioteca_estable_def sort_indexer_estable_def)

subsection \<open>Percent change\<close>

lemma cambio_finito:
  "a \<noteq> 0 \<Longrightarrow> cambio_porcentual (Fin a) (Fin b) = Fin ((b - a) / a * 100)"
  by (simp add: cambio_porcentual_def)

lemma cambio_desde_cero:
  "cambio_porcentual (Fin 0) (Fin b) = (if b = 0 then NaN else if 0 < b then PosInf else NegInf)"
  by (simp add: cambio_porcentual_def)




subsection \<open>Sorting permutes, and a mean does not depend on the order\<close>

lemma es_permutacion_mset: "es_permutacion p n \<Longrightarrow> mset p = mset [0..<n]"
proof -
  assume a: "es_permutacion p n"
  then have "card (set p) = length p" by (simp add: es_permutacion_def)
  then have "distinct p" by (rule card_distinct)
  then have "mset_set (set p) = mset p" by (rule mset_set_set)
  moreover have "set p = {0..<n}" using a by (simp add: es_permutacion_def)
  ultimately show ?thesis by simp
qed

lemma ok_sort_indexer_perm:
  "biblioteca_ok L \<Longrightarrow> es_permutacion (sort_indexer L asc ks) (length ks)"
  by (simp add: biblioteca_ok_def)

lemma ok_argsort:
  "biblioteca_ok L \<Longrightarrow> es_permutacion (argsort L ks) (length ks) \<and> ascendente ks (argsort L ks)"
  by (simp add: biblioteca_ok_def)

lemma ok_sort_indexer_asc:
  "biblioteca_ok L \<Longrightarrow> ascendente ks (sort_indexer L True ks)"
  by (simp add: biblioteca_ok_def)

lemma ok_sort_indexer_desc:
  "biblioteca_ok L \<Longrightarrow> NaN \<notin> set ks \<Longrightarrow> descendente ks (sort_indexer L False ks)"
  by (simp add: biblioteca_ok_def)

lemma mset_map_nth:
  assumes "es_permutacion p (length xs)"
  shows "mset (map (\<lambda>i. xs ! i) p) = mset xs"
proof -
  have "mset (map (\<lambda>i. xs ! i) p) = image_mset (\<lambda>i. xs ! i) (mset p)" by simp
  also have "\<dots> = image_mset (\<lambda>i. xs ! i) (mset [0..<length xs])"
    using es_permutacion_mset [OF assms] by simp
  also have "\<dots> = mset (map (\<lambda>i. xs ! i) [0..<length xs])" by simp
  also have "\<dots> = mset xs" by (simp add: map_nth)
  finally show ?thesis .
qed

lemma sort_values_mset:
  "biblioteca_ok L \<Longrightarrow> mset (sort_values L clave asc xs) = mset xs"
  using mset_map_nth [of "sort_indexer L asc (map clave xs)" xs]
        ok_sort_indexer_perm [of L asc "map clave xs"]
  by (simp add: sort_values_def)

lemma por_periodo_mset: "biblioteca_ok L \<Longrightarrow> mset (por_periodo L xs) = mset xs"
  by (simp add: por_periodo_def sort_values_mset)

lemma media_mset: "mset xs = mset ys \<Longrightarrow> media xs = media ys"
proof -
  assume a: "mset xs = mset ys"
  then have "sum_list xs = sum_list ys" by (metis sum_mset_sum_list)
  moreover have "length xs = length ys" using a by (metis size_mset)
  ultimately show ?thesis by (auto simp: media_def)
qed

lemma mset_seleccion_valores:
  "mset xs = mset ys \<Longrightarrow> mset (map f (filter P xs)) = mset (map f (filter P ys))"
  by (metis mset_filter mset_map)

lemma filter_vacio_mset:
  "mset xs = mset ys \<Longrightarrow> (filter P xs = []) = (filter P ys = [])"
  by (metis mset_filter mset_zero_iff)

lemma tasa_en_vacio:
  "biblioteca_ok L \<Longrightarrow> [r \<leftarrow> xs. periodo r = anio] = [] \<Longrightarrow>
   tasa_en anio (por_periodo L xs) = Inl IndexError"
  using filter_vacio_mset [OF por_periodo_mset, of L "\<lambda>r. periodo r = anio" xs]
  by (simp add: tasa_en_def values0_def)

lemma tasa_en_no_vacio:
  "biblioteca_ok L \<Longrightarrow> [r \<leftarrow> xs. periodo r = anio] \<noteq> [] \<Longrightarrow>
   \<exists>v. tasa_en anio (por_periodo L xs) = Inr v"
  using filter_vacio_mset [OF por_periodo_mset, of L "\<lambda>r. periodo r = anio" xs]
  by (auto simp: tasa_en_def values0_def split: list.splits)

lemma media_en_por_periodo:
  "biblioteca_ok L \<Longrightarrow> media_en anios (por_periodo L xs) = media_en anios xs"
  unfolding media_en_def
  by (intro media_mset mset_seleccion_valores por_periodo_mset)

lemma groupby_mean_mset:
  assumes "mset xs = mset ys"
  shows "groupby_mean clave xs = groupby_mean clave ys"
proof -
  have "set (map clave xs) = set (map clave ys)"
    using assms by (metis mset_eq_setD set_map)
  then have claves: "sort (remdups (map clave xs)) = sort (remdups (map clave ys))"
    by (simp add: sorted_list_of_set_sort_remdups [symmetric])
  have grupo: "mset (map tasa_mortalidad [r \<leftarrow> xs. clave r = k]) =
               mset (map tasa_mortalidad [r \<leftarrow> ys. clave r = k])" for k
    using assms by (rule mset_seleccion_valores)
  have suma: "sum_list (map tasa_mortalidad [r \<leftarrow> xs. clave r = k]) =
              sum_list (map tasa_mortalidad [r \<leftarrow> ys. clave r = k])" for k
    using grupo [of k] by (metis sum_mset_sum_list)
  have cuenta: "length [r \<leftarrow> xs. clave r = k] = length [r \<leftarrow> ys. clave r = k]" for k
    using grupo [of k] by (metis size_mset length_map)
  show ?thesis
    by (simp add: groupby_mean_def claves suma cuenta)
qed

lemma mset_filter_cong: "mset xs = mset ys \<Longrightarrow> mset (filter P xs) = mset (filter P ys)"
  by (metis mset_filter)



subsection \<open>Selections that are empty\<close>

lemma requiere_ok:
  "set cs \<subseteq> set (columnas df) \<Longrightarrow> requiere df cs = Inr ()"
  by (simp add: requiere_def)

lemma requiere_esperadas:
  "set columnas_esperadas \<subseteq> set (columnas df) \<Longrightarrow> set cs \<subseteq> set columnas_esperadas \<Longrightarrow>
   requiere df cs = Inr ()"
  by (rule requiere_ok) blast

lemma bind_error_Inr [simp]: "bind_error (Inr x) f = f x"
  by (simp add: bind_error_def)

lemma bind_error_Inl [simp]: "bind_error (Inl e) f = Inl e"
  by (simp add: bind_error_def)

lemma leer_nuevo: "leer (mem @ [DataFrame df]) (length mem) = Inr df"
  by (simp add: leer_def)

lemma fig1_sin_fila:
  assumes ok: "biblioteca_ok L"
    and cols: "set columnas_esperadas \<subseteq> set (columnas df)"
    and vacio: "[r \<leftarrow> filas df. ubicacion r = ''Comunitat Valenciana'' \<and>
                   causa_mortalidad r = ''General'' \<and> sexo r = ''Ambos sexos'' \<and>
                   periodo r = 2023] = [] \<or>
                [r \<leftarrow> filas df. ubicacion r = ''Comunitat Valenciana'' \<and>
                   causa_mortalidad r = ''General'' \<and> sexo r = ''Ambos sexos'' \<and>
                   periodo r = 2021] = []"
  shows "fig1_datos L df = Inl IndexError"
proof -
  let ?amb = "[r \<leftarrow> [r \<leftarrow> filas df. ubicacion r = ''Comunitat Valenciana'' \<and>
                   causa_mortalidad r = ''General'']. sexo r = ''Ambos sexos'']"
  have req: "requiere df [''ubicacion'', ''causa_mortalidad'', ''sexo'', ''periodo'',
                          ''tasa_mortalidad''] = Inr ()"
    by (rule requiere_esperadas [OF cols]) (simp add: columnas_esperadas_def)
  have paso: "bind_error (tasa_en 2023 (por_periodo L ?amb)) (\<lambda>a.
              bind_error (tasa_en 2021 (por_periodo L ?amb)) (\<lambda>b. Inr (ls, a, b))) = Inl IndexError"
    for ls :: "fila list list"
  proof (cases "[r \<leftarrow> ?amb. periodo r = 2023] = []")
    case True
    then show ?thesis by (simp add: tasa_en_vacio [OF ok])
  next
    case False
    then obtain v where v: "tasa_en 2023 (por_periodo L ?amb) = Inr v"
      using tasa_en_no_vacio [OF ok] by blast
    from False vacio have "[r \<leftarrow> ?amb. periodo r = 2021] = []"
      by (auto simp: filter_empty_conv)
    then have "tasa_en 2021 (por_periodo L ?amb) = Inl IndexError"
      by (rule tasa_en_vacio [OF ok])
    with v show ?thesis by (simp only: bind_error_Inr bind_error_Inl)
  qed
  show ?thesis
    unfolding fig1_datos_def req bind_error_Inr Let_def list.map by (rule paso)
qed

lemma fig6_sin_fila:
  assumes cols: "set columnas_esperadas \<subseteq> set (columnas df)"
    and vacio: "[r \<leftarrow> filas df. ubicacion r = ''Comunitat Valenciana'' \<and>
                   causa_mortalidad r = ''General'' \<and> sexo r = ''Hombres'' \<and>
                   periodo r = 2023] = [] \<or>
                [r \<leftarrow> filas df. ubicacion r = ''Comunitat Valenciana'' \<and>
                   causa_mortalidad r = ''General'' \<and> sexo r = ''Mujeres'' \<and>
                   periodo r = 2023] = []"
  shows "fig6_datos L df = Inl IndexError"
proof -
  have req: "requiere df [''ubicacion'', ''causa_mortalidad'', ''sexo'', ''periodo'',
                          ''esperanza_vida''] = Inr ()"
    by (rule requiere_esperadas [OF cols]) (simp add: columnas_esperadas_def)
  have "bind_error (esperanza_en ''Hombres'' 2023 (filas df)) (\<lambda>a.
        bind_error (esperanza_en ''Mujeres'' 2023 (filas df)) (\<lambda>b. Inr (ls, a, b, b - a))) =
        Inl IndexError" for ls :: "fila list list"
    using vacio
    by (auto simp: esperanza_en_def values0_def bind_error_def split: list.splits sum.splits)
  then show ?thesis
    by (simp add: fig6_datos_def req Let_def)
qed

lemma figura_error:
  "leer mem ref = Inr df \<Longrightarrow> datos df = Inl e \<Longrightarrow>
   figura L k datos nombre dir ref mem = (Inl e, mem)"
  by (simp add: figura_def)



subsection \<open>The ratio of figure 4\<close>

lemma media_casos: "media xs = NaN \<or> (\<exists>m. media xs = Fin m)"
  by (simp add: media_def)

lemma fig4_ratios_nth:
  "i < length fig4_causas \<Longrightarrow> fig4_ratios df ! i = ratio_hm df (fig4_causas ! i)"
  by (simp add: fig4_ratios_def)



subsection \<open>The two pre-COVID baselines\<close>

lemma sum_list_particion:
  "(\<And>r. P r \<longleftrightarrow> Q r \<or> R r) \<Longrightarrow> (\<And>r. \<not> (Q r \<and> R r)) \<Longrightarrow>
   sum_list (map f (filter P xs)) = sum_list (map f (filter Q xs)) + sum_list (map f (filter R xs))"
  for f :: "'a \<Rightarrow> real"
  by (induction xs) auto

lemma length_particion:
  "(\<And>r. P r \<longleftrightarrow> Q r \<or> R r) \<Longrightarrow> (\<And>r. \<not> (Q r \<and> R r)) \<Longrightarrow>
   length (filter P xs) = length (filter Q xs) + length (filter R xs)"
  by (induction xs) auto

lemma fig12_pre_covid_eq:
  "biblioteca_ok L \<Longrightarrow>
   fig12_pre_covid L df =
     media (map tasa_mortalidad
       [r \<leftarrow> seleccion ''Comunitat Valenciana'' ''General'' ''Ambos sexos'' df.
          periodo r = 2018 \<or> periodo r = 2019])"
  unfolding fig12_pre_covid_def cv_general_ambos_def
  by (simp add: media_en_por_periodo) (simp add: media_en_def)

lemma fig13_promedio_historico_eq:
  "biblioteca_ok L \<Longrightarrow>
   fig13_promedio_historico L df =
     media (map tasa_mortalidad
       [r \<leftarrow> seleccion ''Comunitat Valenciana'' ''General'' ''Ambos sexos'' df.
          periodo r \<le> 2019])"
  unfolding fig13_promedio_historico_def cv_general_ambos_def
  by (intro media_mset mset_seleccion_valores por_periodo_mset)

lemma medias_iguales:
  fixes a b :: real
  assumes "0 < n" "0 < m"
  shows "((a + b) / (n + m) = b / m) = (a / n = b / m)"
  using assms by (simp add: field_simps)

lemma bind_error_eq_Inr:
  "(bind_error m f = Inr y) = (\<exists>x. m = Inr x \<and> f x = Inr y)"
  by (cases m) simp_all

lemma fig13_datos_Inr:
  assumes "fig13_datos L d = Inr k"
  shows "ev_dashboard k = 206 / 10 \<and>
         (\<exists>h m c.
            values0 (map esperanza_vida
              [r \<leftarrow> [r \<leftarrow> filas d. ubicacion r = ''Comunitat Valenciana'' \<and>
                     causa_mortalidad r = ''General'' \<and> periodo r = 2022].
                 sexo r = ''Hombres'']) = Inr h \<and>
            values0 (map esperanza_vida
              [r \<leftarrow> [r \<leftarrow> filas d. ubicacion r = ''Comunitat Valenciana'' \<and>
                     causa_mortalidad r = ''General'' \<and> periodo r = 2022].
                 sexo r = ''Mujeres'']) = Inr m \<and>
            brecha_genero k = m - h \<and>
            tasa_en 2021 (cv_general_ambos L (filas d)) = Inr c \<and>
            exceso_covid k =
              cambio_porcentual (fig13_promedio_historico L (filas d)) (Fin c))"
  using assms
  unfolding fig13_datos_def Let_def bind_error_eq_Inr
  by (elim exE conjE) (simp only: sum.inject, erule subst, simp)

lemma fig12_datos_Inr:
  assumes "fig12_datos L d = Inr (vs, ws)"
  shows "vs ! 0 = fig12_pre_covid L (filas d) \<and>
         (\<exists>c. tasa_en 2021 (cv_general_ambos L (filas d)) = Inr c \<and>
              ws ! 2 = cambio_porcentual (fig12_pre_covid L (filas d)) (Fin c))"
  using assms
  unfolding fig12_datos_def Let_def bind_error_eq_Inr
  by (elim exE conjE) (simp only: sum.inject prod.inject, elim conjE, erule subst, erule subst, simp)

lemma bases_iguales:
  assumes ref: "[r \<leftarrow> cv. periodo r = 2018 \<or> periodo r = 2019] \<noteq> []"
  shows "(media (map tasa_mortalidad [r \<leftarrow> cv. periodo r \<le> 2019]) =
          media (map tasa_mortalidad [r \<leftarrow> cv. periodo r = 2018 \<or> periodo r = 2019])) =
         ([r \<leftarrow> cv. periodo r \<le> 2017] = [] \<or>
          media (map tasa_mortalidad [r \<leftarrow> cv. periodo r \<le> 2017]) =
          media (map tasa_mortalidad [r \<leftarrow> cv. periodo r = 2018 \<or> periodo r = 2019]))"
proof -
  let ?A = "[r \<leftarrow> cv. periodo r \<le> 2017]"
  let ?B = "[r \<leftarrow> cv. periodo r = 2018 \<or> periodo r = 2019]"
  let ?T = "[r \<leftarrow> cv. periodo r \<le> 2019]"
  have s: "sum_list (map tasa_mortalidad ?T) =
           sum_list (map tasa_mortalidad ?A) + sum_list (map tasa_mortalidad ?B)"
    by (rule sum_list_particion) auto
  have l: "length ?T = length ?A + length ?B"
    by (rule length_particion) auto
  from ref have m: "0 < length ?B" by simp
  then have t: "?T \<noteq> []" using l by auto
  show ?thesis
  proof (cases "?A = []")
    case True
    then have "length ?A = 0" "sum_list (map tasa_mortalidad ?A) = 0" by simp_all
    with s l have "sum_list (map tasa_mortalidad ?T) = sum_list (map tasa_mortalidad ?B)"
      and "length ?T = length ?B" by simp_all
    with True ref t show ?thesis by (simp add: media_def)
  next
    case False
    then have n: "0 < length ?A" by simp
    have "(media (map tasa_mortalidad ?T) = media (map tasa_mortalidad ?B)) =
          ((sum_list (map tasa_mortalidad ?A) + sum_list (map tasa_mortalidad ?B)) /
             (real (length ?A) + real (length ?B)) =
           sum_list (map tasa_mortalidad ?B) / real (length ?B))"
      using t ref by (simp add: media_def s l)
    also have "\<dots> = (sum_list (map tasa_mortalidad ?A) / real (length ?A) =
                      sum_list (map tasa_mortalidad ?B) / real (length ?B))"
      using n m by (intro medias_iguales) simp_all
    also have "\<dots> = (media (map tasa_mortalidad ?A) = media (map tasa_mortalidad ?B))"
      using False ref by (simp add: media_def)
    finally show ?thesis using False by simp
  qed
qed




subsection \<open>The dashboard's KPI panels\<close>

lemma values0_Inr: "(values0 xs = Inr v) = (\<exists>rest. xs = v # rest)"
  by (cases xs) (simp_all add: values0_def)

text \<open>
  Claim C1, as amended. Whenever the dashboard function gets to draw, the value of its
  life-expectancy panel is the literal 20.6, whatever the table holds; the value of its
  gender-gap panel is computed from the table: the life expectancy of the first row of
  Comunitat Valenciana, General, 2022, Mujeres minus that of the first such row of
  Hombres.
\<close>

theorem fig13_kpi2_literal_kpi3_calculado:
  "fig13_datos L d = Inr k \<Longrightarrow>
     ev_dashboard k = 206 / 10 \<and>
     (\<exists>rh hs rm ms.
        [r \<leftarrow> filas d. ubicacion r = ''Comunitat Valenciana'' \<and> causa_mortalidad r = ''General'' \<and>
                        periodo r = 2022 \<and> sexo r = ''Hombres''] = rh # hs \<and>
        [r \<leftarrow> filas d. ubicacion r = ''Comunitat Valenciana'' \<and> causa_mortalidad r = ''General'' \<and>
                        periodo r = 2022 \<and> sexo r = ''Mujeres''] = rm # ms \<and>
        brecha_genero k = esperanza_vida rm - esperanza_vida rh)"
proof -
  assume "fig13_datos L d = Inr k"
  from fig13_datos_Inr [OF this] obtain h m where
    ev: "ev_dashboard k = 206 / 10" and
    h: "values0 (map esperanza_vida
              [r \<leftarrow> [r \<leftarrow> filas d. ubicacion r = ''Comunitat Valenciana'' \<and>
                     causa_mortalidad r = ''General'' \<and> periodo r = 2022].
                 sexo r = ''Hombres'']) = Inr h" and
    m: "values0 (map esperanza_vida
              [r \<leftarrow> [r \<leftarrow> filas d. ubicacion r = ''Comunitat Valenciana'' \<and>
                     causa_mortalidad r = ''General'' \<and> periodo r = 2022].
                 sexo r = ''Mujeres'']) = Inr m" and
    b: "brecha_genero k = m - h"
    by blast
  from h obtain rh hs where
    "[r \<leftarrow> filas d. ubicacion r = ''Comunitat Valenciana'' \<and> causa_mortalidad r = ''General'' \<and>
                        periodo r = 2022 \<and> sexo r = ''Hombres''] = rh # hs"
    and "h = esperanza_vida rh"
    by (auto simp: values0_Inr map_eq_Cons_conv conj_assoc)
  moreover from m obtain rm ms where
    "[r \<leftarrow> filas d. ubicacion r = ''Comunitat Valenciana'' \<and> causa_mortalidad r = ''General'' \<and>
                        periodo r = 2022 \<and> sexo r = ''Mujeres''] = rm # ms"
    and "m = esperanza_vida rm"
    by (auto simp: values0_Inr map_eq_Cons_conv conj_assoc)
  ultimately show ?thesis using ev b by blast
qed

lemma fig13_df_cv:
  "map_sum id (\<lambda>k. (ev_dashboard k, brecha_genero k)) (fig13_datos biblioteca_modelo df_cv) =
     Inr (206 / 10, 38 / 10)"
  by (simp add: fig13_datos_def requiere_def columnas_esperadas_def tasa_en_def values0_def
        cv_general_ambos_def biblioteca_modelo_def biblioteca_estable_def por_periodo_def
        sort_values_def sort_indexer_estable_def argsort_estable_def seleccion_def
        df_cv_def tabla_cv_def anual_def fila_de_def upt_rec Let_def)

lemma fig13_df_cv_brecha:
  "map_sum id (\<lambda>k. (ev_dashboard k, brecha_genero k)) (fig13_datos biblioteca_modelo df_cv_brecha) =
     Inr (206 / 10, 5)"
  by (simp add: fig13_datos_def requiere_def columnas_esperadas_def tasa_en_def values0_def
        cv_general_ambos_def biblioteca_modelo_def biblioteca_estable_def por_periodo_def
        sort_values_def sort_indexer_estable_def argsort_estable_def seleccion_def
        df_cv_brecha_def tabla_cv_brecha_def tabla_cv_def anual_def fila_de_def upt_rec Let_def)

text \<open>
  The theorem on a table whose rows of 2022 give men 19 and women 22.8 years: the
  dashboard gets to draw, the first panel shows 20.6 and the gap is 3.8.
\<close>

theorem fig13_kpi2_literal_kpi3_calculado_witness:
  "\<exists>k. fig13_datos biblioteca_modelo df_cv = Inr k \<and>
       ev_dashboard k = 206 / 10 \<and> brecha_genero k = 38 / 10"
proof -
  from fig13_df_cv obtain k where k: "fig13_datos biblioteca_modelo df_cv = Inr k"
    by (cases "fig13_datos biblioteca_modelo df_cv") auto
  from fig13_kpi2_literal_kpi3_calculado [OF k] have "ev_dashboard k = 206 / 10"
    by blast
  moreover from fig13_df_cv k have "brecha_genero k = 38 / 10" by simp
  ultimately show ?thesis using k by blast
qed

text \<open>
  The gender-gap panel is not a constant: two tables that differ only in the life
  expectancy of women in 2022 show 3.8 and 5, while the life-expectancy panel shows
  20.6 on both.
\<close>

theorem fig13_brecha_counterexample:
  "map_sum id (\<lambda>k. (ev_dashboard k, brecha_genero k)) (fig13_datos biblioteca_modelo df_cv) =
     Inr (206 / 10, 38 / 10) \<and>
   map_sum id (\<lambda>k. (ev_dashboard k, brecha_genero k))
     (fig13_datos biblioteca_modelo df_cv_brecha) = Inr (206 / 10, 5)"
  using fig13_df_cv fig13_df_cv_brecha by blast

subsection \<open>The loader\<close>

lemma cargar_datos_casos:
  "cargar_datos L ruta =
     (case read_csv L ruta (CHR '';'') of
        Inl e \<Rightarrow> Inl e
      | Inr df \<Rightarrow> if ''periodo'' \<in> set (columnas df) \<and> ''causa_mortalidad'' \<in> set (columnas df)
                 then Inr df else Inl KeyError)"
  by (simp add: cargar_datos_def requiere_def bind_error_def split: sum.splits)

text \<open>
  Claim C4, as amended. The loader fails with the exception of \<^verbatim>\<open>read_csv\<close> when that
  call raises one (FileNotFoundError for a path that does not exist), and with KeyError
  when the header read with the separator \<^verbatim>\<open>;\<close> lacks the column \<^verbatim>\<open>periodo\<close> or the
  column \<^verbatim>\<open>causa_mortalidad\<close>; it raises nothing else of its own, in particular no
  DataFormatError, and it accepts any header that has those two labels. A failure of the
  loader ends the run: the pipeline returns that exception and calls no figure function.
\<close>

theorem cargar_datos_errores:
  "(read_csv L ruta (CHR '';'') = Inl e \<longrightarrow> cargar_datos L ruta = Inl e) \<and>
   (read_csv L ruta (CHR '';'') = Inr df \<longrightarrow>
      cargar_datos L ruta =
        (if ''periodo'' \<in> set (columnas df) \<and> ''causa_mortalidad'' \<in> set (columnas df)
         then Inr df else Inl KeyError)) \<and>
   (cargar_datos L ruta = Inl DataFormatError \<longrightarrow>
      read_csv L ruta (CHR '';'') = Inl DataFormatError) \<and>
   (cargar_datos L ruta = Inl e \<longrightarrow> generar_todas_las_figuras L ruta mem = (Inl e, mem))"
  by (auto simp: cargar_datos_casos generar_todas_las_figuras_def split: sum.splits if_splits)

text \<open>
  The theorem on a file system whose only file is \<^verbatim>\<open>datos.csv\<close>, written with commas:
  another path raises FileNotFoundError, the file itself KeyError, and the run ends
  there.
\<close>

theorem cargar_datos_errores_witness:
  "read_csv (biblioteca_estable (archivo_unico ''datos.csv'' df_comas)) ''otro.csv'' (CHR '';'') =
     Inl FileNotFoundError \<and>
   cargar_datos (biblioteca_estable (archivo_unico ''datos.csv'' df_comas)) ''otro.csv'' =
     Inl FileNotFoundError \<and>
   generar_todas_las_figuras (biblioteca_estable (archivo_unico ''datos.csv'' df_comas))
     ''otro.csv'' [] = (Inl FileNotFoundError, []) \<and>
   read_csv (biblioteca_estable (archivo_unico ''datos.csv'' df_comas)) ''datos.csv'' (CHR '';'') =
     Inr df_comas \<and>
   cargar_datos (biblioteca_estable (archivo_unico ''datos.csv'' df_comas)) ''datos.csv'' =
     Inl KeyError \<and>
   generar_todas_las_figuras (biblioteca_estable (archivo_unico ''datos.csv'' df_comas))
     ''datos.csv'' [] = (Inl KeyError, [])"
proof -
  let ?L = "biblioteca_estable (archivo_unico ''datos.csv'' df_comas)"
  have a: "read_csv ?L ''otro.csv'' (CHR '';'') = Inl FileNotFoundError"
    by (simp add: biblioteca_estable_def archivo_unico_def)
  have b: "read_csv ?L ''datos.csv'' (CHR '';'') = Inr df_comas"
    by (simp add: biblioteca_estable_def archivo_unico_def)
  have c: "''periodo'' \<notin> set (columnas df_comas)"
    by (simp add: df_comas_def)
  from cargar_datos_errores [of ?L "''otro.csv''" FileNotFoundError df_comas "[]"]
       cargar_datos_errores [of ?L "''datos.csv''" KeyError df_comas "[]"]
       a b c
  show ?thesis by simp
qed

text \<open>
  The claim fails on the code. A file written with commas, and a file whose header
  names the year otherwise, make the loader raise KeyError, not DataFormatError; a file
  whose header has the two columns of the report and two unexpected ones is loaded
  without any failure.
\<close>

theorem cargar_datos_counterexample:
  "cargar_datos (biblioteca_estable (archivo_unico ''datos.csv'' df_comas)) ''datos.csv'' =
     Inl KeyError \<and>
   cargar_datos (biblioteca_estable (archivo_unico ''datos.csv'' df_anio)) ''datos.csv'' =
     Inl KeyError \<and>
   cargar_datos (biblioteca_estable (archivo_unico ''datos.csv'' df_otras)) ''datos.csv'' =
     Inr df_otras \<and>
   Inl KeyError \<noteq> (Inl DataFormatError :: error + dataframe)"
  by (simp add: cargar_datos_casos biblioteca_estable_def archivo_unico_def
        df_comas_def df_anio_def df_otras_def)

subsection \<open>The pivot of figure 8\<close>

lemma posicion_nueva: "e \<notin> set es \<Longrightarrow> posicion e (es @ [e]) = length es"
  by (induction es) (auto simp: posicion_def)

lemma quitar_ultimo: "length xs = n \<Longrightarrow> quitar n (xs @ [x]) = xs"
  by (simp add: quitar_def)

lemma map2_ultimo:
  "length xs = length vs \<Longrightarrow> \<forall>cs \<in> set xs. length cs = n \<Longrightarrow>
   map (\<lambda>cs. cs ! n) (map2 (\<lambda>cs v. cs @ [v]) xs vs) = vs"
  by (induction xs vs rule: list_induct2) (simp_all add: nth_append)

lemma map2_nth:
  "length xs = length vs \<Longrightarrow> i < length xs \<Longrightarrow>
   map2 (\<lambda>cs v. cs @ [v]) xs vs ! i = xs ! i @ [vs ! i]"
  by simp

lemma length_mean_axis1: "length (mean_axis1 m) = length (celdas m)"
  by (simp add: mean_axis1_def)

text \<open>Lines 585 to 587 on a frame that has no column \<^verbatim>\<open>promedio\<close> yet.\<close>

lemma promedio_ordenar_quitar:
  assumes ok: "biblioteca_ok L"
    and filas_m: "\<forall>cs \<in> set (celdas m). length cs = length (etiquetas m)"
    and nueva: "Nombre ''promedio'' \<notin> set (etiquetas m)"
  shows "bind_error
           (sort_values_marco L (Nombre ''promedio'') False
              (setitem (Nombre ''promedio'') (mean_axis1 m) m))
           (drop_columna (Nombre ''promedio'')) =
         Inr (m\<lparr>indice := map (\<lambda>i. indice m ! i) (sort_indexer L False (mean_axis1 m)),
                 celdas := map (\<lambda>i. celdas m ! i) (sort_indexer L False (mean_axis1 m))\<rparr>)"
proof -
  let ?e = "Nombre ''promedio''"
  let ?vs = "mean_axis1 m"
  let ?M = "length (etiquetas m)"
  let ?con = "setitem ?e ?vs m"
  let ?p = "sort_indexer L False ?vs"
  have con: "?con = m\<lparr>etiquetas := etiquetas m @ [?e],
                       celdas := map2 (\<lambda>cs v. cs @ [v]) (celdas m) ?vs\<rparr>"
    using nueva by (simp add: setitem_def)
  have pos: "posicion ?e (etiquetas m @ [?e]) = ?M"
    using nueva by (rule posicion_nueva)
  have claves: "map (\<lambda>cs. cs ! ?M) (map2 (\<lambda>cs v. cs @ [v]) (celdas m) ?vs) = ?vs"
    using filas_m by (intro map2_ultimo) (simp_all add: length_mean_axis1)
  have claves': "map ((\<lambda>cs. cs ! ?M) \<circ> (\<lambda>(x, y). x @ [y])) (zip (celdas m) ?vs) = ?vs"
    using claves by simp
  have ord: "sort_values_marco L ?e False ?con =
             Inr (m\<lparr>etiquetas := etiquetas m @ [?e],
                     indice := map (\<lambda>i. indice m ! i) ?p,
                     celdas := map (\<lambda>i. map2 (\<lambda>cs v. cs @ [v]) (celdas m) ?vs ! i) ?p\<rparr>)"
    by (simp add: sort_values_marco_def con pos claves' Let_def)
  have perm: "set ?p = {0..<length (celdas m)}"
    using ok_sort_indexer_perm [OF ok, of False ?vs]
    by (simp add: es_permutacion_def length_mean_axis1)
  have punto: "quitar ?M (map2 (\<lambda>cs v. cs @ [v]) (celdas m) ?vs ! i) = celdas m ! i"
    if "i \<in> set ?p" for i
  proof -
    from that perm have i: "i < length (celdas m)" by simp
    then have "length (celdas m ! i) = ?M" using filas_m by simp
    then show ?thesis using i by (simp add: length_mean_axis1 quitar_ultimo)
  qed
  have quita: "map (quitar ?M \<circ> (!) (map2 (\<lambda>cs v. cs @ [v]) (celdas m) ?vs)) ?p =
               map ((!) (celdas m)) ?p"
    by (rule map_cong [OF refl]) (simp add: punto)
  show ?thesis
    unfolding ord bind_error_Inr
    by (simp add: drop_columna_def pos quitar_ultimo quita Let_def)
qed

lemma finitos_no_vacio: "Fin x \<in> set cs \<Longrightarrow> finitos cs \<noteq> []"
  by (induction cs rule: finitos.induct) auto

lemma media_finita: "xs \<noteq> [] \<Longrightarrow> media xs \<noteq> NaN"
  by (simp add: media_def)

lemma pivot_table_forma:
  "indice (pivot_table datos) = sort (remdups (map ubicacion datos)) \<and>
   etiquetas (pivot_table datos) = map Anio (sort (remdups (map periodo datos))) \<and>
   length (celdas (pivot_table datos)) = length (indice (pivot_table datos)) \<and>
   (\<forall>cs \<in> set (celdas (pivot_table datos)). length cs = length (etiquetas (pivot_table datos))) \<and>
   Nombre ''promedio'' \<notin> set (etiquetas (pivot_table datos))"
  by (simp add: pivot_table_def Let_def image_iff)

lemma pivot_table_celda:
  assumes "i < length (indice (pivot_table datos))" "j < length (etiquetas (pivot_table datos))"
  shows "celdas (pivot_table datos) ! i ! j =
           media (map tasa_mortalidad
             [r \<leftarrow> datos. ubicacion r = sort (remdups (map ubicacion datos)) ! i \<and>
                          periodo r = sort (remdups (map periodo datos)) ! j])"
  using assms by (simp add: pivot_table_def Let_def)

lemma pivot_table_promedio_finito: "NaN \<notin> set (mean_axis1 (pivot_table datos))"
proof
  let ?ps = "sort (remdups (map periodo datos))"
  let ?fila = "\<lambda>u. map (\<lambda>p. media (map tasa_mortalidad
                [r \<leftarrow> datos. ubicacion r = u \<and> periodo r = p])) ?ps"
  assume "NaN \<in> set (mean_axis1 (pivot_table datos))"
  then have "NaN \<in> (\<lambda>u. media (finitos (?fila u))) ` set (sort (remdups (map ubicacion datos)))"
    by (simp add: mean_axis1_def pivot_table_def Let_def image_image)
  then obtain u0 where u0: "u0 \<in> set (sort (remdups (map ubicacion datos)))"
    and nan: "media (finitos (?fila u0)) = NaN"
    by (metis (no_types, lifting) imageE)
  from u0 obtain u where u: "u \<in> set datos" and uu: "ubicacion u = u0"
    by auto
  let ?c = "media (map tasa_mortalidad
              [r \<leftarrow> datos. ubicacion r = u0 \<and> periodo r = periodo u])"
  have "[r \<leftarrow> datos. ubicacion r = u0 \<and> periodo r = periodo u] \<noteq> []"
    using u uu by (auto simp: filter_empty_conv)
  then obtain x where x: "?c = Fin x" by (simp add: media_def)
  have "periodo u \<in> set ?ps" using u by simp
  then have "?c \<in> set (?fila u0)"
    unfolding set_map by (rule image_eqI [where x = "periodo u", rotated]) (rule refl)
  with x have "Fin x \<in> set (?fila u0)" by simp
  then have "finitos (?fila u0) \<noteq> []" by (rule finitos_no_vacio)
  with nan show False by (simp add: media_def)
qed

lemma fig8_datos_eq:
  assumes ok: "biblioteca_ok L" and cols: "set columnas_esperadas \<subseteq> set (columnas d)"
  shows "fig8_datos L d =
     Inr ((pivot_table (departamentos (filas d)))
           \<lparr>indice := map (\<lambda>i. indice (pivot_table (departamentos (filas d))) ! i)
                        (sort_indexer L False (mean_axis1 (pivot_table (departamentos (filas d))))),
            celdas := map (\<lambda>i. celdas (pivot_table (departamentos (filas d))) ! i)
                        (sort_indexer L False (mean_axis1 (pivot_table (departamentos (filas d)))))\<rparr>)"
proof -
  have req: "requiere d fig8_columnas = Inr ()"
    by (rule requiere_esperadas [OF cols]) (simp add: columnas_esperadas_def fig8_columnas_def)
  note f = pivot_table_forma [of "departamentos (filas d)"]
  from f have f1: "\<forall>cs \<in> set (celdas (pivot_table (departamentos (filas d)))).
      length cs = length (etiquetas (pivot_table (departamentos (filas d))))"
    by (elim conjE)
  from f have f2: "Nombre ''promedio'' \<notin> set (etiquetas (pivot_table (departamentos (filas d))))"
    by (elim conjE)
  show ?thesis
    unfolding fig8_datos_def req bind_error_Inr Let_def
    by (rule promedio_ordenar_quitar [OF ok f1 f2])
qed

lemma marco_actualizado:
  "m\<lparr>indice := a, celdas := c\<rparr> = \<lparr>indice = a, etiquetas = etiquetas m, celdas = c\<rparr>"
  by (cases m) simp

lemma fig8_orden:
  assumes ok: "biblioteca_ok L" and cols: "set columnas_esperadas \<subseteq> set (columnas d)"
  shows "\<exists>perm. es_permutacion perm (length (indice (pivot_table (departamentos (filas d))))) \<and>
           descendente (mean_axis1 (pivot_table (departamentos (filas d)))) perm \<and>
           fig8_datos L d =
             Inr \<lparr>indice = map (\<lambda>i. indice (pivot_table (departamentos (filas d))) ! i) perm,
                  etiquetas = etiquetas (pivot_table (departamentos (filas d))),
                  celdas = map (\<lambda>i. celdas (pivot_table (departamentos (filas d))) ! i) perm\<rparr>"
proof -
  let ?P = "pivot_table (departamentos (filas d))"
  let ?p = "sort_indexer L False (mean_axis1 ?P)"
  have l: "length (mean_axis1 ?P) = length (indice ?P)"
    using pivot_table_forma [of "departamentos (filas d)"] by (simp add: length_mean_axis1)
  have "es_permutacion ?p (length (indice ?P))"
    using ok_sort_indexer_perm [OF ok, of False "mean_axis1 ?P"] by (simp add: l)
  moreover have "descendente (mean_axis1 ?P) ?p"
    by (rule ok_sort_indexer_desc [OF ok pivot_table_promedio_finito])
  moreover have "fig8_datos L d =
      Inr \<lparr>indice = map (\<lambda>i. indice ?P ! i) ?p, etiquetas = etiquetas ?P,
           celdas = map (\<lambda>i. celdas ?P ! i) ?p\<rparr>"
    unfolding fig8_datos_eq [OF ok cols] marco_actualizado ..
  ultimately show ?thesis by blast
qed

lemma pivot_table_dimensiones:
  "distinct (indice (pivot_table datos)) \<and>
   set (indice (pivot_table datos)) = ubicacion ` set datos \<and>
   length (indice (pivot_table datos)) = card (ubicacion ` set datos) \<and>
   length (celdas (pivot_table datos)) = card (ubicacion ` set datos) \<and>
   length (etiquetas (pivot_table datos)) = card (periodo ` set datos) \<and>
   (\<forall>cs \<in> set (celdas (pivot_table datos)). length cs = card (periodo ` set datos))"
proof -
  have a: "length (sort (remdups (map ubicacion datos))) = card (ubicacion ` set datos)"
    by (simp add: length_remdups_card_conv)
  have b: "length (sort (remdups (map periodo datos))) = card (periodo ` set datos)"
    by (simp add: length_remdups_card_conv)
  show ?thesis
    using a b by (simp add: pivot_table_def Let_def)
qed

lemma pivot_table_celdas:
  "i < length (indice (pivot_table datos)) \<and> j < length (etiquetas (pivot_table datos)) \<longrightarrow>
     (\<exists>p. etiquetas (pivot_table datos) ! j = Anio p \<and> p \<in> periodo ` set datos \<and>
          celdas (pivot_table datos) ! i ! j =
            media (map tasa_mortalidad
              [r \<leftarrow> datos. ubicacion r = indice (pivot_table datos) ! i \<and> periodo r = p]))"
proof
  assume ij: "i < length (indice (pivot_table datos)) \<and> j < length (etiquetas (pivot_table datos))"
  let ?ps = "sort (remdups (map periodo datos))"
  from ij have j: "j < length ?ps" by (simp add: pivot_table_def Let_def)
  then have "?ps ! j \<in> set ?ps" by (rule nth_mem)
  then have m: "?ps ! j \<in> periodo ` set datos" by simp
  have e: "etiquetas (pivot_table datos) ! j = Anio (?ps ! j)"
    using j by (simp add: pivot_table_def Let_def)
  have c: "celdas (pivot_table datos) ! i ! j =
            media (map tasa_mortalidad
              [r \<leftarrow> datos. ubicacion r = indice (pivot_table datos) ! i \<and> periodo r = ?ps ! j])"
    using ij pivot_table_celda [of i datos j] pivot_table_forma [of datos] by simp
  from e m c show "\<exists>p. etiquetas (pivot_table datos) ! j = Anio p \<and> p \<in> periodo ` set datos \<and>
          celdas (pivot_table datos) ! i ! j =
            media (map tasa_mortalidad
              [r \<leftarrow> datos. ubicacion r = indice (pivot_table datos) ! i \<and> periodo r = p])"
    by blast
qed

text \<open>
  Claim C6. In figure 8 the rows that pass the filter, with N distinct locations and M
  distinct years, pivot to a frame of N rows (one per location) and M columns (one per
  year); the cell of a location and a year is the mean rate of the filtered rows of
  that pair (NaN when there is none). The frame that is drawn has the same M columns,
  the column of row means being dropped, and the same rows in an order that is
  descending in the row mean.
\<close>

theorem fig8_pivote_N_por_M:
  "biblioteca_ok L \<Longrightarrow> set columnas_esperadas \<subseteq> set (columnas d) \<Longrightarrow>
     distinct (indice (pivot_table (departamentos (filas d)))) \<and>
     set (indice (pivot_table (departamentos (filas d)))) =
       ubicacion ` set (departamentos (filas d)) \<and>
     length (indice (pivot_table (departamentos (filas d)))) =
       card (ubicacion ` set (departamentos (filas d))) \<and>
     length (celdas (pivot_table (departamentos (filas d)))) =
       card (ubicacion ` set (departamentos (filas d))) \<and>
     length (etiquetas (pivot_table (departamentos (filas d)))) =
       card (periodo ` set (departamentos (filas d))) \<and>
     (\<forall>cs \<in> set (celdas (pivot_table (departamentos (filas d)))).
        length cs = card (periodo ` set (departamentos (filas d)))) \<and>
     (\<forall>i j. i < length (indice (pivot_table (departamentos (filas d)))) \<and>
            j < length (etiquetas (pivot_table (departamentos (filas d)))) \<longrightarrow>
        (\<exists>p. etiquetas (pivot_table (departamentos (filas d))) ! j = Anio p \<and>
             p \<in> periodo ` set (departamentos (filas d)) \<and>
             celdas (pivot_table (departamentos (filas d))) ! i ! j =
               media (map tasa_mortalidad
                 [r \<leftarrow> departamentos (filas d).
                    ubicacion r = indice (pivot_table (departamentos (filas d))) ! i \<and>
                    periodo r = p]))) \<and>
     (\<exists>perm. es_permutacion perm (length (indice (pivot_table (departamentos (filas d))))) \<and>
        descendente (mean_axis1 (pivot_table (departamentos (filas d)))) perm \<and>
        fig8_datos L d =
          Inr \<lparr>indice = map (\<lambda>i. indice (pivot_table (departamentos (filas d))) ! i) perm,
               etiquetas = etiquetas (pivot_table (departamentos (filas d))),
               celdas = map (\<lambda>i. celdas (pivot_table (departamentos (filas d))) ! i) perm\<rparr>)"
proof -
  assume ok: "biblioteca_ok L" and cols: "set columnas_esperadas \<subseteq> set (columnas d)"
  note a = pivot_table_dimensiones [of "departamentos (filas d)"]
  have b: "\<forall>i j. i < length (indice (pivot_table (departamentos (filas d)))) \<and>
            j < length (etiquetas (pivot_table (departamentos (filas d)))) \<longrightarrow>
        (\<exists>p. etiquetas (pivot_table (departamentos (filas d))) ! j = Anio p \<and>
             p \<in> periodo ` set (departamentos (filas d)) \<and>
             celdas (pivot_table (departamentos (filas d))) ! i ! j =
               media (map tasa_mortalidad
                 [r \<leftarrow> departamentos (filas d).
                    ubicacion r = indice (pivot_table (departamentos (filas d))) ! i \<and>
                    periodo r = p]))"
    using pivot_table_celdas [of _ "departamentos (filas d)"] by blast
  note c = fig8_orden [OF ok cols]
  from a b c show ?thesis by (intro conjI) (elim conjE, assumption)+
qed

text \<open>
  The theorem on a table with two departments and two years (and two rows for one of
  the pairs): a pivot of two rows and two columns, drawn with the department of the
  higher mean first.
\<close>

theorem fig8_pivote_N_por_M_witness:
  "biblioteca_ok biblioteca_modelo \<and>
   set columnas_esperadas \<subseteq> set (columnas df_deptos) \<and>
   card (ubicacion ` set (departamentos (filas df_deptos))) = 2 \<and>
   card (periodo ` set (departamentos (filas df_deptos))) = 2 \<and>
   pivot_table (departamentos (filas df_deptos)) =
     \<lparr>indice = [''Alcoi'', ''Gandia''], etiquetas = [Anio 2010, Anio 2011],
      celdas = [[Fin 800, Fin 820], [Fin 900, Fin 940]]\<rparr> \<and>
   fig8_datos biblioteca_modelo df_deptos =
     Inr \<lparr>indice = [''Gandia'', ''Alcoi''], etiquetas = [Anio 2010, Anio 2011],
          celdas = [[Fin 900, Fin 940], [Fin 800, Fin 820]]\<rparr>"
proof -
  have ok: "biblioteca_ok biblioteca_modelo"
    unfolding biblioteca_modelo_def by (rule biblioteca_estable_ok)
  have cols: "set columnas_esperadas \<subseteq> set (columnas df_deptos)"
    by (simp add: df_deptos_def)
  have d: "departamentos (filas df_deptos) =
             [depto 2010 ''Alcoi'' ''Alicante'' 800, depto 2011 ''Alcoi'' ''Alicante'' 820,
              depto 2010 ''Gandia'' ''Valencia'' 900, depto 2011 ''Gandia'' ''Valencia'' 930,
              depto 2011 ''Gandia'' ''Valencia'' 950]"
    by (simp add: departamentos_def df_deptos_def tabla_deptos_def depto_def anual_def fila_de_def)
  have p: "pivot_table (departamentos (filas df_deptos)) =
     \<lparr>indice = [''Alcoi'', ''Gandia''], etiquetas = [Anio 2010, Anio 2011],
      celdas = [[Fin 800, Fin 820], [Fin 900, Fin 940]]\<rparr>"
    unfolding d by (simp add: pivot_table_def media_def depto_def fila_de_def)
  note T = fig8_pivote_N_por_M [OF ok cols]
  from T have "length (indice (pivot_table (departamentos (filas df_deptos)))) =
      card (ubicacion ` set (departamentos (filas df_deptos)))" by blast
  then have n: "card (ubicacion ` set (departamentos (filas df_deptos))) = 2"
    unfolding p by simp
  from T have "length (etiquetas (pivot_table (departamentos (filas df_deptos)))) =
      card (periodo ` set (departamentos (filas df_deptos)))" by blast
  then have m: "card (periodo ` set (departamentos (filas df_deptos))) = 2"
    unfolding p by simp
  have r: "requiere df_deptos fig8_columnas = Inr ()"
    by (rule requiere_esperadas [OF cols]) (simp add: columnas_esperadas_def fig8_columnas_def)
  have f: "fig8_datos biblioteca_modelo df_deptos =
     Inr \<lparr>indice = [''Gandia'', ''Alcoi''], etiquetas = [Anio 2010, Anio 2011],
          celdas = [[Fin 900, Fin 940], [Fin 800, Fin 820]]\<rparr>"
    unfolding fig8_datos_def r bind_error_Inr Let_def p
    by (simp add: mean_axis1_def media_def setitem_def sort_values_marco_def posicion_def
          drop_columna_def quitar_def biblioteca_modelo_def biblioteca_estable_def
          sort_indexer_estable_def argsort_estable_def upt_rec)
  from ok cols n m p f show ?thesis by blast
qed

subsection \<open>The orderings of figures 4, 7 and 8\<close>

lemma es_permutacion_rev: "es_permutacion p n \<Longrightarrow> es_permutacion (rev p) n"
  by (simp add: es_permutacion_def)

lemma descendente_rev: "ascendente xs p \<Longrightarrow> descendente xs (rev p)"
  by (simp add: ascendente_def descendente_def sorted_wrt_rev)

lemma sort_values_asc:
  assumes ok: "biblioteca_ok L"
  shows "sorted_wrt (\<lambda>a b. np_le (clave a) (clave b)) (sort_values L clave True xs)"
proof -
  let ?p = "sort_indexer L True (map clave xs)"
  have s: "set ?p = {0..<length xs}"
    using ok_sort_indexer_perm [OF ok, of True "map clave xs"] by (simp add: es_permutacion_def)
  have "sorted_wrt (\<lambda>i j. np_le (map clave xs ! i) (map clave xs ! j)) ?p"
    using ok_sort_indexer_asc [OF ok, of "map clave xs"] by (simp add: ascendente_def)
  then have "sorted_wrt (\<lambda>i j. np_le (clave (xs ! i)) (clave (xs ! j))) ?p"
    by (rule sorted_wrt_mono_rel [rotated]) (use s in auto)
  then show ?thesis by (simp add: sort_values_def sorted_wrt_map)
qed

lemma fig4_orden_desc:
  assumes ok: "biblioteca_ok L"
  shows "es_permutacion (fig4_orden L df) (length fig4_causas) \<and>
         descendente (fig4_ratios df) (fig4_orden L df)"
proof -
  have l: "length (fig4_ratios df) = length fig4_causas" by (simp add: fig4_ratios_def)
  from ok_argsort [OF ok, of "fig4_ratios df"] show ?thesis
    unfolding fig4_orden_def l by (simp add: es_permutacion_rev descendente_rev)
qed

lemma fig7_ranking_asc:
  assumes ok: "biblioteca_ok L"
  shows "mset (fig7_ranking L df) = mset (fig7_medias df) \<and>
         sorted_wrt (\<lambda>a b. snd a \<le> snd b) (fig7_ranking L df)"
  using sort_values_asc [OF ok, of "\<lambda>kv. Fin (snd kv)" "fig7_medias df"]
  by (simp add: fig7_ranking_def sort_values_mset [OF ok])

text \<open>
  Claim C3, as amended. Each ordering is by the aggregated value and is a permutation
  of the items: in figure 4 the positions of the five causes in descending order of the
  ratio, obtained as the ascending order of \<^verbatim>\<open>np.argsort\<close> reversed; in figure 7 the
  department means in ascending order; in figure 8 the rows of the pivot in descending
  order of the row mean. The source asks for the default sort each time, and nothing
  more is stated about items with equal values: their order is the one the library's
  sort leaves, in figure 4 that order reversed.
\<close>

theorem ordenes_por_valor:
  "biblioteca_ok L \<Longrightarrow>
     fig4_orden L (filas d) = rev (argsort L (fig4_ratios (filas d))) \<and>
     es_permutacion (fig4_orden L (filas d)) (length fig4_causas) \<and>
     descendente (fig4_ratios (filas d)) (fig4_orden L (filas d)) \<and>
     mset (fig7_ranking L (filas d)) = mset (fig7_medias (filas d)) \<and>
     sorted_wrt (\<lambda>a b. snd a \<le> snd b) (fig7_ranking L (filas d)) \<and>
     (set columnas_esperadas \<subseteq> set (columnas d) \<longrightarrow>
        (\<exists>perm. es_permutacion perm (length (indice (pivot_table (departamentos (filas d))))) \<and>
           descendente (mean_axis1 (pivot_table (departamentos (filas d)))) perm \<and>
           fig8_datos L d =
             Inr \<lparr>indice = map (\<lambda>i. indice (pivot_table (departamentos (filas d))) ! i) perm,
                  etiquetas = etiquetas (pivot_table (departamentos (filas d))),
                  celdas = map (\<lambda>i. celdas (pivot_table (departamentos (filas d))) ! i) perm\<rparr>))"
proof -
  assume ok: "biblioteca_ok L"
  have a: "fig4_orden L (filas d) = rev (argsort L (fig4_ratios (filas d)))"
    by (simp add: fig4_orden_def)
  note b = fig4_orden_desc [OF ok, of "filas d"]
  note c = fig7_ranking_asc [OF ok, of "filas d"]
  have e: "set columnas_esperadas \<subseteq> set (columnas d) \<longrightarrow>
        (\<exists>perm. es_permutacion perm (length (indice (pivot_table (departamentos (filas d))))) \<and>
           descendente (mean_axis1 (pivot_table (departamentos (filas d)))) perm \<and>
           fig8_datos L d =
             Inr \<lparr>indice = map (\<lambda>i. indice (pivot_table (departamentos (filas d))) ! i) perm,
                  etiquetas = etiquetas (pivot_table (departamentos (filas d))),
                  celdas = map (\<lambda>i. celdas (pivot_table (departamentos (filas d))) ! i) perm\<rparr>)"
    using fig8_orden [OF ok] by blast
  from a b c e show ?thesis by (intro conjI) (elim conjE, assumption)+
qed

lemma fig4_empate_ratios: "fig4_ratios tabla_empate = [Fin 2, Fin 2, Fin 2, Fin 2, Fin 2]"
  by (simp add: fig4_ratios_def fig4_causas_def ratio_hm_def media_sexo_def seleccion_def
        media_def tabla_empate_def fila_de_def)

lemma argsort_empate: "argsort_estable [Fin 2, Fin 2, Fin 2, Fin 2, Fin 2] = [0, 1, 2, 3, 4]"
  by (simp add: argsort_estable_def upt_rec)

text \<open>
  The theorem on two tables: the ratios NaN, 3, NaN, NaN and infinity of
  \<open>tabla_ratio\<close> come out in the order NaN, NaN, NaN, infinity, 3 (numpy sorts NaN
  last, the reversal puts it first), and the two departments of \<open>tabla_deptos\<close> in
  ascending order of their means.
\<close>

theorem ordenes_por_valor_witness:
  "biblioteca_ok biblioteca_modelo \<and>
   fig4_ratios tabla_ratio = [NaN, Fin 3, NaN, NaN, PosInf] \<and>
   fig4_orden biblioteca_modelo tabla_ratio = [3, 2, 0, 4, 1] \<and>
   descendente (fig4_ratios tabla_ratio) (fig4_orden biblioteca_modelo tabla_ratio) \<and>
   fig7_ranking biblioteca_modelo tabla_deptos =
     [((''Alcoi'', ''Alicante''), 810), ((''Gandia'', ''Valencia''), 2780 / 3)] \<and>
   sorted_wrt (\<lambda>a b. snd a \<le> snd b) (fig7_ranking biblioteca_modelo tabla_deptos)"
proof -
  have ok: "biblioteca_ok biblioteca_modelo"
    unfolding biblioteca_modelo_def by (rule biblioteca_estable_ok)
  have r: "fig4_ratios tabla_ratio = [NaN, Fin 3, NaN, NaN, PosInf]"
    by (simp add: fig4_ratios_def fig4_causas_def ratio_hm_def media_sexo_def seleccion_def
          media_def tabla_ratio_def fila_de_def)
  have o: "fig4_orden biblioteca_modelo tabla_ratio = [3, 2, 0, 4, 1]"
    unfolding fig4_orden_def r
    by (simp add: biblioteca_modelo_def biblioteca_estable_def argsort_estable_def upt_rec)
  have m: "fig7_medias tabla_deptos =
             [((''Alcoi'', ''Alicante''), 810), ((''Gandia'', ''Valencia''), 2780 / 3)]"
    by (simp add: fig7_medias_def groupby_mean_def departamentos_def tabla_deptos_def
          depto_def anual_def fila_de_def)
  have k: "fig7_ranking biblioteca_modelo tabla_deptos =
             [((''Alcoi'', ''Alicante''), 810), ((''Gandia'', ''Valencia''), 2780 / 3)]"
    unfolding fig7_ranking_def m
    by (simp add: sort_values_def biblioteca_modelo_def biblioteca_estable_def
          sort_indexer_estable_def argsort_estable_def upt_rec)
  from ordenes_por_valor [OF ok, of "\<lparr>columnas = columnas_esperadas, filas = tabla_ratio\<rparr>",
         unfolded dataframe.select_convs]
  have d: "descendente (fig4_ratios tabla_ratio) (fig4_orden biblioteca_modelo tabla_ratio)"
    by blast
  from ordenes_por_valor [OF ok, of "\<lparr>columnas = columnas_esperadas, filas = tabla_deptos\<rparr>",
         unfolded dataframe.select_convs]
  have s: "sorted_wrt (\<lambda>a b. snd a \<le> snd b) (fig7_ranking biblioteca_modelo tabla_deptos)"
    by blast
  from ok r o d k s show ?thesis by blast
qed

text \<open>
  Ties do not keep the order of the input in figure 4. On a table where the five causes
  have the same ratio 2, a library whose sorts are stable gives the causes in the reverse
  of the order of the source's list; and whatever the library, when \<^verbatim>\<open>np.argsort\<close>
  keeps the five equal ratios in their order, figure 4 does not.
\<close>

theorem ordenes_por_valor_counterexample:
  "fig4_causas = [''General'', ''Cancer'', ''Cardio'', ''Cerebro'', ''Suicidio''] \<and>
   fig4_ratios tabla_empate = [Fin 2, Fin 2, Fin 2, Fin 2, Fin 2] \<and>
   argsort biblioteca_modelo (fig4_ratios tabla_empate) = [0, 1, 2, 3, 4] \<and>
   fig4_datos biblioteca_modelo df_empate =
     Inr ([''Suicidio'', ''Cerebro'', ''Cardio'', ''Cancer'', ''General''],
          [Fin 2, Fin 2, Fin 2, Fin 2, Fin 2]) \<and>
   \<not> (\<exists>L. argsort L (fig4_ratios tabla_empate) = [0, 1, 2, 3, 4] \<and>
          fig4_orden L tabla_empate = [0, 1, 2, 3, 4])"
proof -
  have c: "fig4_causas = [''General'', ''Cancer'', ''Cardio'', ''Cerebro'', ''Suicidio'']"
    by (simp add: fig4_causas_def)
  note r = fig4_empate_ratios
  have a: "argsort biblioteca_modelo (fig4_ratios tabla_empate) = [0, 1, 2, 3, 4]"
    unfolding r by (simp add: biblioteca_modelo_def biblioteca_estable_def argsort_empate)
  have q: "requiere df_empate [''ubicacion'', ''causa_mortalidad'', ''sexo'', ''tasa_mortalidad'']
             = Inr ()"
    by (simp add: requiere_def df_empate_def columnas_esperadas_def)
  have f: "filas df_empate = tabla_empate" by (simp add: df_empate_def)
  have d: "fig4_datos biblioteca_modelo df_empate =
     Inr ([''Suicidio'', ''Cerebro'', ''Cardio'', ''Cancer'', ''General''],
          [Fin 2, Fin 2, Fin 2, Fin 2, Fin 2])"
    unfolding fig4_datos_def q bind_error_Inr Let_def fig4_orden_def f a
    by (simp add: r c)
  have n: "\<not> (\<exists>L. argsort L (fig4_ratios tabla_empate) = [0, 1, 2, 3, 4] \<and>
          fig4_orden L tabla_empate = [0, 1, 2, 3, 4])"
    by (auto simp: fig4_orden_def)
  from c r a d n show ?thesis by blast
qed

subsection \<open>The table is never written\<close>

lemma figura_memoria: "snd (figura L k datos nombre dir ref mem) = mem"
  by (simp add: figura_def)

lemma escribir_nuevo:
  "escribir_marco (mem @ [Marco m]) (length mem) g = mem @ [Marco (g m)]"
  by (simp add: escribir_marco_def)

lemma marco_en_nuevo: "marco_en (mem @ [Marco m]) (length mem) = m"
  by (simp add: marco_en_def)

text \<open>
  Figure 8 with its memory written out: the objects it found, untouched, followed by
  the frames it built (the pivot with its column \<^verbatim>\<open>promedio\<close>, the sorted frame,
  the frame that is drawn).
\<close>

lemma fig8_desplegado:
  "fig8_heatmap_departamentos L dir ref mem =
     (case leer mem ref of
        Inl e \<Rightarrow> (Inl e, mem)
      | Inr df \<Rightarrow>
         (case requiere df fig8_columnas of
            Inl e \<Rightarrow> (Inl e, mem)
          | Inr u \<Rightarrow>
             (case sort_values_marco L (Nombre ''promedio'') False
                     (setitem (Nombre ''promedio'')
                        (mean_axis1 (pivot_table (departamentos (filas df))))
                        (pivot_table (departamentos (filas df)))) of
                Inl e \<Rightarrow>
                  (Inl e, mem @ [Marco (setitem (Nombre ''promedio'')
                        (mean_axis1 (pivot_table (departamentos (filas df))))
                        (pivot_table (departamentos (filas df))))])
              | Inr ordenado \<Rightarrow>
                 (case drop_columna (Nombre ''promedio'') ordenado of
                    Inl e \<Rightarrow>
                      (Inl e, mem @ [Marco (setitem (Nombre ''promedio'')
                        (mean_axis1 (pivot_table (departamentos (filas df))))
                        (pivot_table (departamentos (filas df)))), Marco ordenado])
                  | Inr sin_promedio \<Rightarrow>
                      ((case dibujar L 8 (filas df) of
                          Some e \<Rightarrow> Inl e
                        | None \<Rightarrow> Inr (os_path_join dir ''fig8_heatmap_departamentos.png'')),
                       mem @ [Marco (setitem (Nombre ''promedio'')
                        (mean_axis1 (pivot_table (departamentos (filas df))))
                        (pivot_table (departamentos (filas df)))), Marco ordenado,
                        Marco sin_promedio])))))"
  by (simp add: fig8_heatmap_departamentos_def Let_def escribir_marco_def marco_en_def
        nth_append split: sum.splits option.splits)

lemma fig8_memoria:
  "\<exists>nuevos. snd (fig8_heatmap_departamentos L dir ref mem) = mem @ map Marco nuevos"
proof -
  have e1: "\<exists>nuevos. [Marco a] = map Marco nuevos" for a
    by (rule exI [of _ "[a]"]) simp
  have e2: "\<exists>nuevos. [Marco a, Marco b] = map Marco nuevos" for a b
    by (rule exI [of _ "[a, b]"]) simp
  have e3: "\<exists>nuevos. [Marco a, Marco b, Marco c] = map Marco nuevos" for a b c
    by (rule exI [of _ "[a, b, c]"]) simp
  show ?thesis
    unfolding fig8_desplegado
    by (auto split: sum.splits option.splits simp: e1 e2 e3)
qed

lemma fig8_conserva: "take (length mem) (snd (fig8_heatmap_departamentos L dir ref mem)) = mem"
  using fig8_memoria [of L dir ref mem] by auto

lemma las_figuras_conservan:
  "f \<in> set (las_figuras L) \<Longrightarrow> take (length mem) (snd (f dir ref mem)) = mem"
  unfolding las_figuras_def
  by (auto simp: fig8_conserva figura_memoria
        fig1_evolucion_mortalidad_general_def fig2_jerarquia_causas_def
        fig3_evolucion_causas_especificas_def fig4_disparidad_genero_ratio_def
        fig5_comparativa_sexo_causa_def fig6_esperanza_vida_genero_def
        fig7_ranking_departamentos_def fig9_tendencia_suicidio_def
        fig10_scatter_correlacion_def fig11_comparativa_provincias_def
        fig12_impacto_covid_def fig13_dashboard_resumen_def)

lemma take_conserva_length: "take n xs = ys \<Longrightarrow> length ys = n \<Longrightarrow> n \<le> length xs"
  by (metis length_take min.cobounded1 min_def nat_le_linear)

lemma ejecutar_conserva:
  assumes "\<And>f m. f \<in> set fs \<Longrightarrow> take (length m) (snd (f OUTPUT_DIR ref m)) = m"
  shows "take (length m) (snd (ejecutar fs ref acc m)) = m"
  using assms
proof (induction fs arbitrary: acc m)
  case Nil
  then show ?case by simp
next
  case (Cons f fs)
  obtain res m' where r: "f OUTPUT_DIR ref m = (res, m')" by (cases "f OUTPUT_DIR ref m")
  have t: "take (length m) m' = m" using Cons.prems [of f m] r by simp
  then have le: "length m \<le> length m'" by (rule take_conserva_length) simp
  show ?case
  proof (cases res)
    case (Inl e)
    with r t show ?thesis by simp
  next
    case (Inr ruta)
    have "take (length m') (snd (ejecutar fs ref (acc @ [ruta]) m')) = m'"
      by (rule Cons.IH) (simp add: Cons.prems)
    then have "take (length m) (take (length m') (snd (ejecutar fs ref (acc @ [ruta]) m'))) =
               take (length m) m'" by simp
    with le t have "take (length m) (snd (ejecutar fs ref (acc @ [ruta]) m')) = m"
      by (simp add: min_def)
    with r Inr show ?thesis by simp
  qed
qed

lemma generar_conserva:
  "take (length mem) (snd (generar_todas_las_figuras L ruta mem)) = mem \<and>
   (cargar_datos L ruta = Inr df \<longrightarrow>
      take (Suc (length mem)) (snd (generar_todas_las_figuras L ruta mem)) =
        mem @ [DataFrame df])"
proof (cases "cargar_datos L ruta")
  case (Inl e)
  then show ?thesis by (simp add: generar_todas_las_figuras_def)
next
  case (Inr d)
  have "take (length (mem @ [DataFrame d]))
          (snd (ejecutar (las_figuras L) (length mem) [] (mem @ [DataFrame d]))) =
        mem @ [DataFrame d]"
    by (rule ejecutar_conserva) (rule las_figuras_conservan)
  then have a: "take (Suc (length mem)) (snd (generar_todas_las_figuras L ruta mem)) =
        mem @ [DataFrame d]"
    by (simp add: generar_todas_las_figuras_def Inr)
  then have "take (length mem) (take (Suc (length mem)) (snd (generar_todas_las_figuras L ruta mem)))
     = take (length mem) (mem @ [DataFrame d])" by simp
  then have "take (length mem) (snd (generar_todas_las_figuras L ruta mem)) = mem"
    by (simp add: min_def)
  with a Inr show ?thesis by simp
qed


subsection \<open>A complete run\<close>

lemmas evaluar =
  requiere_def columnas_esperadas_def tasa_en_def values0_def media_en_def media_def
  cv_general_ambos_def biblioteca_estable_def por_periodo_def
  sort_values_def sort_indexer_estable_def argsort_estable_def seleccion_def
  df_completa_def tabla_completa_def anual_def depto_def fila_de_def upt_rec Let_def

lemma completa_fig1: "\<not> isl (fig1_datos (biblioteca_estable lector) df_completa)"
  unfolding fig1_datos_def Let_def list.map
  by (simp add: evaluar)

lemma completa_fig2: "\<not> isl (fig2_datos (biblioteca_estable lector) df_completa)"
  unfolding fig2_datos_def fig2_medias_def Let_def
  by (simp add: groupby_mean_def evaluar)

lemma completa_fig3: "\<not> isl (fig3_datos (biblioteca_estable lector) df_completa)"
  unfolding fig3_datos_def fig3_causa_def Let_def mapM_error.simps
  by (simp add: evaluar)

lemma completa_fig4: "\<not> isl (fig4_datos (biblioteca_estable lector) df_completa)"
  by (simp add: fig4_datos_def requiere_def df_completa_def columnas_esperadas_def Let_def)

lemma completa_fig5: "\<not> isl (fig5_datos df_completa)"
  by (simp add: fig5_datos_def requiere_def df_completa_def columnas_esperadas_def Let_def)

lemma completa_fig6: "\<not> isl (fig6_datos (biblioteca_estable lector) df_completa)"
  unfolding fig6_datos_def Let_def list.map
  by (simp add: esperanza_en_def evaluar)

lemma completa_fig7: "\<not> isl (fig7_datos (biblioteca_estable lector) df_completa)"
  by (simp add: fig7_datos_def requiere_def df_completa_def columnas_esperadas_def Let_def)

lemma completa_fig9: "\<not> isl (fig9_datos (biblioteca_estable lector) df_completa)"
  unfolding fig9_datos_def Let_def list.map
  by (simp add: evaluar)

lemma completa_fig10: "\<not> isl (fig10_datos (biblioteca_estable lector) df_completa)"
  unfolding fig10_datos_def Let_def list.map
  by (simp add: evaluar)

lemma completa_fig11: "\<not> isl (fig11_datos (biblioteca_estable lector) df_completa)"
  by (simp add: fig11_datos_def requiere_def df_completa_def columnas_esperadas_def Let_def)

lemma completa_fig12: "\<not> isl (fig12_datos (biblioteca_estable lector) df_completa)"
  unfolding fig12_datos_def fig12_pre_covid_def Let_def
  by (simp add: evaluar)

lemma completa_fig13: "\<not> isl (fig13_datos (biblioteca_estable lector) df_completa)"
  unfolding fig13_datos_def Let_def
  by (simp add: evaluar)

lemma figura_completa:
  "\<not> isl (datos df) \<Longrightarrow>
   figura (biblioteca_estable lector) k datos nombre dir 0 (DataFrame df # resto) =
     (Inr (os_path_join dir nombre), DataFrame df # resto)"
  by (cases "datos df") (simp_all add: figura_def leer_def biblioteca_estable_def)

lemma fig8_completa:
  assumes ok: "biblioteca_ok L" and cols: "set columnas_esperadas \<subseteq> set (columnas df)"
    and dib: "dibujar L 8 (filas df) = None"
  shows "\<exists>nuevos. fig8_heatmap_departamentos L dir 0 (DataFrame df # resto) =
           (Inr (os_path_join dir ''fig8_heatmap_departamentos.png''),
            DataFrame df # resto @ map Marco nuevos)"
proof -
  let ?P = "pivot_table (departamentos (filas df))"
  let ?C = "setitem (Nombre ''promedio'') (mean_axis1 ?P) ?P"
  have l: "leer (DataFrame df # resto) 0 = Inr df" by (simp add: leer_def)
  have req: "requiere df fig8_columnas = Inr ()"
    by (rule requiere_esperadas [OF cols]) (simp add: columnas_esperadas_def fig8_columnas_def)
  note f = pivot_table_forma [of "departamentos (filas df)"]
  from f have f1: "\<forall>cs \<in> set (celdas ?P). length cs = length (etiquetas ?P)"
    by (elim conjE)
  from f have f2: "Nombre ''promedio'' \<notin> set (etiquetas ?P)"
    by (elim conjE)
  from promedio_ordenar_quitar [OF ok f1 f2] obtain ordenado final where
    o: "sort_values_marco L (Nombre ''promedio'') False ?C = Inr ordenado" and
    q: "drop_columna (Nombre ''promedio'') ordenado = Inr final"
    unfolding bind_error_eq_Inr by blast
  have "fig8_heatmap_departamentos L dir 0 (DataFrame df # resto) =
           (Inr (os_path_join dir ''fig8_heatmap_departamentos.png''),
            DataFrame df # resto @ map Marco [?C, ordenado, final])"
    by (simp add: fig8_desplegado l req o q dib)
  then show ?thesis by blast
qed

lemma completa_cargar:
  "cargar_datos (biblioteca_estable (archivo_unico ''datos.csv'' df_completa)) ''datos.csv'' =
     Inr df_completa"
  by (simp add: cargar_datos_casos biblioteca_estable_def archivo_unico_def df_completa_def
        columnas_esperadas_def)

lemma completa_run:
  "\<exists>nuevos.
     generar_todas_las_figuras (biblioteca_estable (archivo_unico ''datos.csv'' df_completa))
       ''datos.csv'' [] =
     (Inr [''figuras/fig1_evolucion_mortalidad_general.png'',
           ''figuras/fig2_jerarquia_causas_mortalidad.png'',
           ''figuras/fig3_evolucion_causas_especificas.png'',
           ''figuras/fig4_disparidad_genero_ratio.png'',
           ''figuras/fig5_comparativa_sexo_causa.png'',
           ''figuras/fig6_esperanza_vida_genero.png'',
           ''figuras/fig7_ranking_departamentos.png'',
           ''figuras/fig8_heatmap_departamentos.png'',
           ''figuras/fig9_tendencia_suicidio.png'',
           ''figuras/fig10_scatter_correlacion.png'',
           ''figuras/fig11_comparativa_provincias.png'',
           ''figuras/fig12_impacto_covid.png'',
           ''figuras/fig13_dashboard_resumen.png''],
      DataFrame df_completa # map Marco nuevos)"
proof -
  let ?L = "biblioteca_estable (archivo_unico ''datos.csv'' df_completa)"
  have ok: "biblioteca_ok ?L" by (rule biblioteca_estable_ok)
  have cols: "set columnas_esperadas \<subseteq> set (columnas df_completa)"
    by (simp add: df_completa_def)
  have dib: "dibujar ?L 8 (filas df_completa) = None"
    by (simp add: biblioteca_estable_def)
  from fig8_completa [OF ok cols dib, of "''figuras''" "[]"] obtain nuevos where
    "fig8_heatmap_departamentos ?L ''figuras'' 0 [DataFrame df_completa] =
           (Inr (os_path_join ''figuras'' ''fig8_heatmap_departamentos.png''),
            DataFrame df_completa # map Marco nuevos)"
    by auto
  then have f8: "fig8_heatmap_departamentos ?L ''figuras'' 0 [DataFrame df_completa] =
           (Inr ''figuras/fig8_heatmap_departamentos.png'',
            DataFrame df_completa # map Marco nuevos)"
    by (simp add: os_path_join_def)
  have "generar_todas_las_figuras ?L ''datos.csv'' [] =
     (Inr [''figuras/fig1_evolucion_mortalidad_general.png'',
           ''figuras/fig2_jerarquia_causas_mortalidad.png'',
           ''figuras/fig3_evolucion_causas_especificas.png'',
           ''figuras/fig4_disparidad_genero_ratio.png'',
           ''figuras/fig5_comparativa_sexo_causa.png'',
           ''figuras/fig6_esperanza_vida_genero.png'',
           ''figuras/fig7_ranking_departamentos.png'',
           ''figuras/fig8_heatmap_departamentos.png'',
           ''figuras/fig9_tendencia_suicidio.png'',
           ''figuras/fig10_scatter_correlacion.png'',
           ''figuras/fig11_comparativa_provincias.png'',
           ''figuras/fig12_impacto_covid.png'',
           ''figuras/fig13_dashboard_resumen.png''],
      DataFrame df_completa # map Marco nuevos)"
    unfolding generar_todas_las_figuras_def completa_cargar las_figuras_def
    by (simp add: f8 figura_completa os_path_join_def OUTPUT_DIR_def
          fig1_evolucion_mortalidad_general_def fig2_jerarquia_causas_def
          fig3_evolucion_causas_especificas_def fig4_disparidad_genero_ratio_def
          fig5_comparativa_sexo_causa_def fig6_esperanza_vida_genero_def
          fig7_ranking_departamentos_def fig9_tendencia_suicidio_def
          fig10_scatter_correlacion_def fig11_comparativa_provincias_def
          fig12_impacto_covid_def fig13_dashboard_resumen_def
          completa_fig1 completa_fig2 completa_fig3 completa_fig4 completa_fig5
          completa_fig6 completa_fig7 completa_fig9 completa_fig10 completa_fig11
          completa_fig12 completa_fig13)
  then show ?thesis by blast
qed

lemma deptos_fig8:
  "fig8_heatmap_departamentos biblioteca_modelo ''figuras'' 0 [DataFrame df_deptos] =
     (Inr ''figuras/fig8_heatmap_departamentos.png'',
      [DataFrame df_deptos,
       Marco \<lparr>indice = [''Alcoi'', ''Gandia''],
              etiquetas = [Anio 2010, Anio 2011, Nombre ''promedio''],
              celdas = [[Fin 800, Fin 820, Fin 810], [Fin 900, Fin 940, Fin 920]]\<rparr>,
       Marco \<lparr>indice = [''Gandia'', ''Alcoi''],
              etiquetas = [Anio 2010, Anio 2011, Nombre ''promedio''],
              celdas = [[Fin 900, Fin 940, Fin 920], [Fin 800, Fin 820, Fin 810]]\<rparr>,
       Marco \<lparr>indice = [''Gandia'', ''Alcoi''], etiquetas = [Anio 2010, Anio 2011],
              celdas = [[Fin 900, Fin 940], [Fin 800, Fin 820]]\<rparr>])"
proof -
  have l: "leer [DataFrame df_deptos] 0 = Inr df_deptos" by (simp add: leer_def)
  have r: "requiere df_deptos fig8_columnas = Inr ()"
    by (simp add: requiere_def df_deptos_def columnas_esperadas_def fig8_columnas_def)
  have d: "departamentos (filas df_deptos) =
             [depto 2010 ''Alcoi'' ''Alicante'' 800, depto 2011 ''Alcoi'' ''Alicante'' 820,
              depto 2010 ''Gandia'' ''Valencia'' 900, depto 2011 ''Gandia'' ''Valencia'' 930,
              depto 2011 ''Gandia'' ''Valencia'' 950]"
    by (simp add: departamentos_def df_deptos_def tabla_deptos_def depto_def anual_def fila_de_def)
  have p: "pivot_table (departamentos (filas df_deptos)) =
     \<lparr>indice = [''Alcoi'', ''Gandia''], etiquetas = [Anio 2010, Anio 2011],
      celdas = [[Fin 800, Fin 820], [Fin 900, Fin 940]]\<rparr>"
    unfolding d by (simp add: pivot_table_def media_def depto_def fila_de_def)
  have c: "setitem (Nombre ''promedio'')
             (mean_axis1 \<lparr>indice = [''Alcoi'', ''Gandia''], etiquetas = [Anio 2010, Anio 2011],
                          celdas = [[Fin 800, Fin 820], [Fin 900, Fin 940]]\<rparr>)
             \<lparr>indice = [''Alcoi'', ''Gandia''], etiquetas = [Anio 2010, Anio 2011],
              celdas = [[Fin 800, Fin 820], [Fin 900, Fin 940]]\<rparr> =
           \<lparr>indice = [''Alcoi'', ''Gandia''],
            etiquetas = [Anio 2010, Anio 2011, Nombre ''promedio''],
            celdas = [[Fin 800, Fin 820, Fin 810], [Fin 900, Fin 940, Fin 920]]\<rparr>"
    by (simp add: setitem_def mean_axis1_def media_def)
  have s: "sort_values_marco biblioteca_modelo (Nombre ''promedio'') False
             \<lparr>indice = [''Alcoi'', ''Gandia''],
              etiquetas = [Anio 2010, Anio 2011, Nombre ''promedio''],
              celdas = [[Fin 800, Fin 820, Fin 810], [Fin 900, Fin 940, Fin 920]]\<rparr> =
           Inr \<lparr>indice = [''Gandia'', ''Alcoi''],
                etiquetas = [Anio 2010, Anio 2011, Nombre ''promedio''],
                celdas = [[Fin 900, Fin 940, Fin 920], [Fin 800, Fin 820, Fin 810]]\<rparr>"
    by (simp add: sort_values_marco_def posicion_def biblioteca_modelo_def
          biblioteca_estable_def sort_indexer_estable_def argsort_estable_def upt_rec)
  have q: "drop_columna (Nombre ''promedio'')
             \<lparr>indice = [''Gandia'', ''Alcoi''],
              etiquetas = [Anio 2010, Anio 2011, Nombre ''promedio''],
              celdas = [[Fin 900, Fin 940, Fin 920], [Fin 800, Fin 820, Fin 810]]\<rparr> =
           Inr \<lparr>indice = [''Gandia'', ''Alcoi''], etiquetas = [Anio 2010, Anio 2011],
                celdas = [[Fin 900, Fin 940], [Fin 800, Fin 820]]\<rparr>"
    by (simp add: drop_columna_def posicion_def quitar_def)
  have b: "dibujar biblioteca_modelo 8 (filas df_deptos) = None"
    by (simp add: biblioteca_modelo_def biblioteca_estable_def)
  show ?thesis
    by (simp add: fig8_desplegado l r p c s q b os_path_join_def)
qed


end
